theory Spec2Isabelle
  imports Main "HOL-Library.AList"
begin

section \<open>The calls actions module (app/products/calls/actions/calls.ts)\<close>

text \<open>
  The module sequences REST requests, calls on a connection object, setters of the local
  calls store and alert dialogs. The embedding passes the state explicitly: a \<open>world\<close>
  holds the calls store, the module-level \<open>connection\<close> variable and the trace of the
  calls made on external collaborators, in the order the code makes them. What the
  collaborators answer (the REST client, \<open>newConnection\<close>, the permission check, the
  database) is read from an \<open>env\<close>. A \<open>{data}\<close> result is \<open>Inr\<close>, an \<open>{error}\<close>
  result is \<open>Inl\<close>. Each operation is run from its call to its return, one at a
  time; \<open>loadConfigAndCalls\<close>, which starts \<open>loadConfig\<close> and \<open>loadCalls\<close> without
  awaiting them, is left out.
\<close>

subsection \<open>Data\<close>

text \<open>JSON values held in the fields of a config object.\<close>

datatype jsval = JBool bool | JNum int | JStr string | JArr "string list"

text \<open>
  A config object (\<open>CallsConfig\<close>, and the \<open>ServerConfig\<close> the server sends) is only read
  by field and copied by object spread, so it is a map from field names to values:
  \<open>{...a, ...b, k: v}\<close> is \<open>(a ++ b)(k \<mapsto> v)\<close>.
\<close>

type_synonym obj = "string \<rightharpoonup> jsval"

text \<open>
  A \<open>Dictionary<T>\<close> is a plain object whose keys are enumerated (\<open>Object.keys\<close>): an
  association list of its own properties, one entry per key, in the order the keys were
  first written (the code enumerates integer-like keys before the others; nothing here
  depends on the order).
\<close>

type_synonym 'v Dictionary = "(string \<times> 'v) list"

text \<open>
  \<open>d[k] = v\<close> on a plain object. For the key \<open>__proto__\<close> the assignment runs the
  setter inherited from \<open>Object.prototype\<close>: it changes the prototype of \<open>d\<close> (when
  \<open>v\<close> is an object) or does nothing (when \<open>v\<close> is a boolean), and in both cases \<open>d\<close>
  gets no own property. Every other key is written as an own property.
\<close>

definition set_key :: "string \<Rightarrow> 'v \<Rightarrow> 'v Dictionary \<Rightarrow> 'v Dictionary" where
  "set_key k v d = (if k = ''__proto__'' then d else AList.update k v d)"

text \<open>
  The value of an \<open>error\<close> field: an error object that was thrown (with its message), or
  one of the string literals of this module.
\<close>

datatype error = ClientError string | ErrorString string

record CallParticipant =
  id_cp :: string
  muted :: bool
  raisedHand :: int

record Call =
  participants :: "CallParticipant Dictionary"
  channelId :: string
  startTime :: int
  screenOn :: string
  threadId :: string
  creatorId :: string

text \<open>What \<open>client.getCalls()\<close> answers: one \<open>ServerChannelState\<close> per channel.\<close>

record ServerUserState =
  unmuted :: bool
  raised_hand :: int

record ServerCallState =
  users :: "string list"
  states :: "ServerUserState list option"
  start_at :: int
  screen_sharing_id :: string
  thread_id :: string
  creator_id :: string

record ServerChannelState =
  channel_id :: string
  enabled :: bool
  call :: "ServerCallState option"

record ClientPluginManifest =
  id_manifest :: string

text \<open>
  The REST client of one server: each field is the outcome of the request of that name
  (\<open>Inl\<close> when the request throws).
\<close>

record Client =
  client_getCallsConfig :: "error + obj"
  client_getCalls :: "error + ServerChannelState list"
  client_getPluginsManifests :: "error + ClientPluginManifest list"
  client_enableChannelCalls :: "string \<Rightarrow> error + unit"
  client_disableChannelCalls :: "string \<Rightarrow> error + unit"
  client_endCall :: "string \<Rightarrow> error + string"

text \<open>A connection object, with the outcome of its \<open>waitForReady()\<close>.\<close>

record CallsConnection =
  conn_id :: nat
  waitForReady :: "error + unit"

record UserModel =
  id_user :: string
  roles :: string

record ChannelModel =
  displayName :: string
  channel_type :: string
  channel_name :: string

record database =
  getCurrentUser :: "UserModel option"
  getChannelById :: "string \<Rightarrow> ChannelModel option"

subsection \<open>Calls on the collaborators\<close>

datatype request =
    GetCallsConfig
  | GetCalls
  | GetPluginsManifests
  | EnableChannelCalls string
  | DisableChannelCalls string
  | EndCall string

text \<open>A text produced by \<open>formatMessage\<close> (message id and parameters), or a plain string.\<close>

datatype param = PNum nat | PStr string

datatype message = FormatMessage string "(string \<times> param) list" | Plain string

text \<open>The \<open>onPress\<close> handler of an alert button: the closure over \<open>endCall\<close>.\<close>

datatype handler = OnPressEndCall string string

record button =
  button_text :: message
  onPress :: "handler option"

datatype event =
    Request string request
  | ForceLogoutIfNecessary string error
  | FetchUsersByIds string "string list"
  | HasMicrophonePermission
  | NewConnection string string
  | WaitForReady CallsConnection
  | Disconnect CallsConnection
  | Mute CallsConnection
  | Unmute CallsConnection
  | RaiseHand CallsConnection
  | UnraiseHand CallsConnection
  | InCallManager_setSpeakerphoneOn bool
  | SetSpeakerPhone bool
  | SetPluginEnabled string bool
  | MyselfJoinedCall string string
  | MyselfLeftCall
  | Alert message message "button list"

subsection \<open>State and environment\<close>

record world =
  callsConfig :: "string \<Rightarrow> obj"
  channelEnabled :: "string \<Rightarrow> bool Dictionary"
  calls :: "string \<Rightarrow> Call Dictionary"
  connection :: "CallsConnection option"
  trace :: "event list"

text \<open>
  The constants of \<open>@constants\<close> and \<open>@calls/types\<close> and the answers of the
  collaborators that are not part of this module are parameters.
\<close>

record env =
  Date_now :: int
  RefreshConfigMillis :: int
  PluginId :: string
  DM_CHANNEL :: string
  DefaultCallsConfig :: obj
  getClient :: "string \<Rightarrow> error + Client"
  hasMicrophonePermission :: bool
  newConnection :: "string \<Rightarrow> string \<Rightarrow> error + CallsConnection"
  serverDatabases :: "string \<Rightarrow> database option"
  isSystemAdmin :: "string \<Rightarrow> bool"
  dmDisplayName :: "database \<Rightarrow> ChannelModel \<Rightarrow> UserModel \<Rightarrow> string"

definition emit :: "event \<Rightarrow> world \<Rightarrow> world" where
  "emit ev w = w\<lparr>trace := trace w @ [ev]\<rparr>"

text \<open>
  Modelled from the spec: \<open>forceLogoutIfNecessary\<close> of \<open>@actions/remote/session\<close>, not
  among the sources, the shared handler every REST failure is passed to. The call is
  recorded; what the handler then does to the session is not part of this module.
\<close>

definition forceLogoutIfNecessary :: "string \<Rightarrow> error \<Rightarrow> world \<Rightarrow> world" where
  "forceLogoutIfNecessary serverUrl err w = emit (ForceLogoutIfNecessary serverUrl err) w"

definition request :: "string \<Rightarrow> request \<Rightarrow> world \<Rightarrow> world" where
  "request serverUrl r w = emit (Request serverUrl r) w"

subsection \<open>The calls store (@calls/state)\<close>

text \<open>
  The getters and setters of \<open>@calls/state\<close> are not among the sources. The store keeps
  one \<open>CallsConfig\<close> per server and the calls and channel-enabled flags per server, and
  a setter overwrites what it names. \<open>setPluginEnabled\<close>, \<open>setSpeakerPhone\<close>,
  \<open>myselfJoinedCall\<close> and \<open>myselfLeftCall\<close>, whose effect on the store nothing
  describes, are recorded in the trace.
\<close>

text \<open>Modelled from the spec: \<open>getCallsConfig\<close> of \<open>@calls/state\<close>, the cached config of
  a server.\<close>

definition getCallsConfig :: "world \<Rightarrow> string \<Rightarrow> obj" where
  "getCallsConfig w serverUrl = callsConfig w serverUrl"

text \<open>Modelled from the spec: \<open>setConfig\<close> of \<open>@calls/state\<close>, which overwrites the
  cached config of a server.\<close>

definition setConfig :: "string \<Rightarrow> obj \<Rightarrow> world \<Rightarrow> world" where
  "setConfig serverUrl config w = w\<lparr>callsConfig := (callsConfig w)(serverUrl := config)\<rparr>"

text \<open>Modelled from the spec: \<open>setChannelEnabled\<close> of \<open>@calls/state\<close>, which sets the
  enabled flag of one channel of a server.\<close>

definition setChannelEnabled :: "string \<Rightarrow> string \<Rightarrow> bool \<Rightarrow> world \<Rightarrow> world" where
  "setChannelEnabled serverUrl cid b w =
     w\<lparr>channelEnabled :=
         (channelEnabled w)(serverUrl := AList.update cid b (channelEnabled w serverUrl))\<rparr>"

text \<open>Modelled from the spec: \<open>setCalls\<close> of \<open>@calls/state\<close>, which overwrites the
  calls and the channel-enabled flags of a server with the fetched ones.\<close>

definition setCalls ::
  "string \<Rightarrow> string \<Rightarrow> Call Dictionary \<Rightarrow> bool Dictionary \<Rightarrow> world \<Rightarrow> world" where
  "setCalls serverUrl userId callsResults enabledChannels w =
     w\<lparr>calls := (calls w)(serverUrl := callsResults),
       channelEnabled := (channelEnabled w)(serverUrl := enabledChannels)\<rparr>"

text \<open>Modelled from the spec: \<open>setPluginEnabled\<close>, \<open>myselfJoinedCall\<close> and
  \<open>myselfLeftCall\<close> of \<open>@calls/state\<close>, as calls recorded in the trace.\<close>

definition setPluginEnabled :: "string \<Rightarrow> bool \<Rightarrow> world \<Rightarrow> world" where
  "setPluginEnabled serverUrl b w = emit (SetPluginEnabled serverUrl b) w"

definition myselfJoinedCall :: "string \<Rightarrow> string \<Rightarrow> world \<Rightarrow> world" where
  "myselfJoinedCall serverUrl cid w = emit (MyselfJoinedCall serverUrl cid) w"

definition myselfLeftCall :: "world \<Rightarrow> world" where
  "myselfLeftCall w = emit MyselfLeftCall w"

subsection \<open>loadConfig\<close>

text \<open>
  \<open>config.last_retrieved_at || 0\<close>: the field is a number or absent; an absent field
  (and the number 0) gives 0.
\<close>

definition lastRetrievedAt :: "obj \<Rightarrow> int" where
  "lastRetrievedAt config =
     (case config ''last_retrieved_at'' of Some (JNum n) \<Rightarrow> n | _ \<Rightarrow> 0)"

definition loadConfig :: "env \<Rightarrow> string \<Rightarrow> bool \<Rightarrow> world \<Rightarrow> (error + obj) \<times> world" where
  "loadConfig e serverUrl force w =
     (let now = Date_now e;
          config = getCallsConfig w serverUrl
      in if \<not> force \<and> now - lastRetrievedAt config < RefreshConfigMillis e
         then (Inr config, w)
         else
           (case getClient e serverUrl of
              Inl err \<Rightarrow> (Inl err, w)
            | Inr client \<Rightarrow>
                (let w1 = request serverUrl GetCallsConfig w
                 in case client_getCallsConfig client of
                      Inl err \<Rightarrow>
                        (Inl err,
                         setConfig serverUrl
                           ((DefaultCallsConfig e)(''last_retrieved_at'' \<mapsto> JNum now))
                           (forceLogoutIfNecessary serverUrl err w1))
                    | Inr data \<Rightarrow>
                        (let nextConfig = (config ++ data)(''last_retrieved_at'' \<mapsto> JNum now)
                         in (Inr nextConfig, setConfig serverUrl nextConfig w1)))))"

subsection \<open>loadCalls\<close>

text \<open>
  \<open>call.states && call.states[curIdx]\<close>: the state at an index, when \<open>states\<close> is there
  and has an entry at that index.
\<close>

definition state_at :: "ServerCallState \<Rightarrow> nat \<Rightarrow> ServerUserState option" where
  "state_at c curIdx =
     (case states c of
        None \<Rightarrow> None
      | Some ss \<Rightarrow> if curIdx < length ss then Some (ss ! curIdx) else None)"

text \<open>The body of the reducer: the participant written at \<open>accum[cur]\<close>.\<close>

definition participant :: "ServerCallState \<Rightarrow> string \<Rightarrow> nat \<Rightarrow> CallParticipant" where
  "participant c cur curIdx =
     \<lparr>id_cp = cur,
      muted = (case state_at c curIdx of Some s \<Rightarrow> \<not> unmuted s | None \<Rightarrow> True),
      raisedHand = (case state_at c curIdx of Some s \<Rightarrow> raised_hand s | None \<Rightarrow> 0)\<rparr>"

text \<open>\<open>users.reduce((accum, cur, curIdx) => ..., {})\<close>, from index \<open>curIdx\<close> on.\<close>

fun reduce_users ::
  "ServerCallState \<Rightarrow> CallParticipant Dictionary \<Rightarrow> nat \<Rightarrow> string list \<Rightarrow>
   CallParticipant Dictionary" where
  "reduce_users c accum curIdx [] = accum"
| "reduce_users c accum curIdx (cur # rest) =
     reduce_users c (set_key cur (participant c cur curIdx) accum) (Suc curIdx) rest"

text \<open>The \<open>Call\<close> stored for a channel that has a call.\<close>

definition toCall :: "ServerChannelState \<Rightarrow> ServerCallState \<Rightarrow> Call" where
  "toCall channel c =
     \<lparr>participants = reduce_users c [] 0 (users c),
      channelId = channel_id channel,
      startTime = start_at c,
      screenOn = screen_sharing_id c,
      threadId = thread_id c,
      creatorId = creator_id c\<rparr>"

text \<open>The \<open>for (const channel of resp)\<close> loop, on both dictionaries.\<close>

fun for_channels ::
  "Call Dictionary \<times> bool Dictionary \<Rightarrow> ServerChannelState list \<Rightarrow>
   Call Dictionary \<times> bool Dictionary" where
  "for_channels (callsResults, enabledChannels) [] = (callsResults, enabledChannels)"
| "for_channels (callsResults, enabledChannels) (channel # rest) =
     for_channels
       (case call channel of
          Some c \<Rightarrow> set_key (channel_id channel) (toCall channel c) callsResults
        | None \<Rightarrow> callsResults,
        set_key (channel_id channel) (enabled channel) enabledChannels)
       rest"

text \<open>The \<open>Set\<close> of user ids, in insertion order.\<close>

definition add_id :: "string list \<Rightarrow> string \<Rightarrow> string list" where
  "add_id ids i = (if i \<in> set ids then ids else ids @ [i])"

definition collect_ids :: "ServerChannelState list \<Rightarrow> string list" where
  "collect_ids resp =
     foldl (\<lambda>ids channel.
              case call channel of None \<Rightarrow> ids | Some c \<Rightarrow> foldl add_id ids (users c))
       [] resp"

definition loadCalls ::
  "env \<Rightarrow> string \<Rightarrow> string \<Rightarrow> world \<Rightarrow>
   (error + Call Dictionary \<times> bool Dictionary) \<times> world" where
  "loadCalls e serverUrl userId w =
     (case getClient e serverUrl of
        Inl err \<Rightarrow> (Inl err, w)
      | Inr client \<Rightarrow>
          (let w1 = request serverUrl GetCalls w
           in case client_getCalls client of
                Inl err \<Rightarrow> (Inl err, forceLogoutIfNecessary serverUrl err w1)
              | Inr resp \<Rightarrow>
                  (let ids = collect_ids resp;
                       w2 = (if ids \<noteq> [] then emit (FetchUsersByIds serverUrl ids) w1 else w1);
                       (callsResults, enabledChannels) = for_channels ([], []) resp
                   in (Inr (callsResults, enabledChannels),
                       setCalls serverUrl userId callsResults enabledChannels w2))))"

subsection \<open>checkIsCallsPluginEnabled, enableChannelCalls, disableChannelCalls\<close>

text \<open>\<open>Array.prototype.findIndex\<close>: the first index that satisfies \<open>p\<close>, or -1.\<close>

fun findIndex :: "('a \<Rightarrow> bool) \<Rightarrow> 'a list \<Rightarrow> int" where
  "findIndex p [] = - 1"
| "findIndex p (x # xs) =
     (if p x then 0 else (let i = findIndex p xs in if i = - 1 then - 1 else i + 1))"

definition checkIsCallsPluginEnabled ::
  "env \<Rightarrow> string \<Rightarrow> world \<Rightarrow> (error + bool) \<times> world" where
  "checkIsCallsPluginEnabled e serverUrl w =
     (case getClient e serverUrl of
        Inl err \<Rightarrow> (Inl err, w)
      | Inr client \<Rightarrow>
          (let w1 = request serverUrl GetPluginsManifests w
           in case client_getPluginsManifests client of
                Inl err \<Rightarrow> (Inl err, forceLogoutIfNecessary serverUrl err w1)
              | Inr data \<Rightarrow>
                  (let isEnabled = (findIndex (\<lambda>m. id_manifest m = PluginId e) data \<noteq> - 1)
                   in (Inr isEnabled, setPluginEnabled serverUrl isEnabled w1))))"

definition enableChannelCalls ::
  "env \<Rightarrow> string \<Rightarrow> string \<Rightarrow> world \<Rightarrow> (error + unit) \<times> world" where
  "enableChannelCalls e serverUrl cid w =
     (case getClient e serverUrl of
        Inl err \<Rightarrow> (Inl err, w)
      | Inr client \<Rightarrow>
          (let w1 = request serverUrl (EnableChannelCalls cid) w
           in case client_enableChannelCalls client cid of
                Inl err \<Rightarrow> (Inl err, forceLogoutIfNecessary serverUrl err w1)
              | Inr _ \<Rightarrow> (Inr (), setChannelEnabled serverUrl cid True w1)))"

definition disableChannelCalls ::
  "env \<Rightarrow> string \<Rightarrow> string \<Rightarrow> world \<Rightarrow> (error + unit) \<times> world" where
  "disableChannelCalls e serverUrl cid w =
     (case getClient e serverUrl of
        Inl err \<Rightarrow> (Inl err, w)
      | Inr client \<Rightarrow>
          (let w1 = request serverUrl (DisableChannelCalls cid) w
           in case client_disableChannelCalls client cid of
                Inl err \<Rightarrow> (Inl err, forceLogoutIfNecessary serverUrl err w1)
              | Inr _ \<Rightarrow> (Inr (), setChannelEnabled serverUrl cid False w1)))"

subsection \<open>joinCall, leaveCall and the calls on the held connection\<close>

definition setSpeakerphoneOn :: "bool \<Rightarrow> world \<Rightarrow> world" where
  "setSpeakerphoneOn speakerphoneOn w =
     emit (SetSpeakerPhone speakerphoneOn)
       (emit (InCallManager_setSpeakerphoneOn speakerphoneOn) w)"

text \<open>\<open>if (connection) { connection.disconnect(); connection = null; }\<close>\<close>

definition disconnect_held :: "world \<Rightarrow> world" where
  "disconnect_held w =
     (case connection w of
        Some conn \<Rightarrow> (emit (Disconnect conn) w)\<lparr>connection := None\<rparr>
      | None \<Rightarrow> w)"

text \<open>
  \<open>const {data: enabled} = ...; if (!enabled)\<close>: the \<open>data\<close> field of an \<open>{error}\<close>
  result is undefined, which is falsy.
\<close>

definition data_truthy :: "error + bool \<Rightarrow> bool" where
  "data_truthy res = (case res of Inl _ \<Rightarrow> False | Inr b \<Rightarrow> b)"

definition joinCall :: "env \<Rightarrow> string \<Rightarrow> string \<Rightarrow> world \<Rightarrow> (error + string) \<times> world" where
  "joinCall e serverUrl cid w =
     (case checkIsCallsPluginEnabled e serverUrl w of
        (res, w1) \<Rightarrow>
          if \<not> data_truthy res then (Inl (ErrorString ''calls plugin not enabled''), w1)
          else
            (let w2 = emit HasMicrophonePermission w1
             in if \<not> hasMicrophonePermission e
                then (Inl (ErrorString ''no permissions to microphone, unable to start call''), w2)
                else
                  (let w3 = disconnect_held w2;
                       w4 = setSpeakerphoneOn False w3;
                       w5 = emit (NewConnection serverUrl cid) w4
                   in case newConnection e serverUrl cid of
                        Inl err \<Rightarrow> (Inl err, forceLogoutIfNecessary serverUrl err w5)
                      | Inr conn \<Rightarrow>
                          (let w6 = w5\<lparr>connection := Some conn\<rparr>;
                               w7 = emit (WaitForReady conn) w6
                           in case waitForReady conn of
                                Inr _ \<Rightarrow> (Inr cid, myselfJoinedCall serverUrl cid w7)
                              | Inl _ \<Rightarrow>
                                  (Inl (ErrorString ''unable to connect to the voice call''),
                                   (emit (Disconnect conn) w7)\<lparr>connection := None\<rparr>)))))"

definition leaveCall :: "world \<Rightarrow> world" where
  "leaveCall w = myselfLeftCall (setSpeakerphoneOn False (disconnect_held w))"

definition muteMyself :: "world \<Rightarrow> world" where
  "muteMyself w = (case connection w of Some conn \<Rightarrow> emit (Mute conn) w | None \<Rightarrow> w)"

definition unmuteMyself :: "world \<Rightarrow> world" where
  "unmuteMyself w = (case connection w of Some conn \<Rightarrow> emit (Unmute conn) w | None \<Rightarrow> w)"

definition raiseHand :: "world \<Rightarrow> world" where
  "raiseHand w = (case connection w of Some conn \<Rightarrow> emit (RaiseHand conn) w | None \<Rightarrow> w)"

definition unraiseHand :: "world \<Rightarrow> world" where
  "unraiseHand w = (case connection w of Some conn \<Rightarrow> emit (UnraiseHand conn) w | None \<Rightarrow> w)"

subsection \<open>endCallAlert\<close>

text \<open>
  The \<open>endCall\<close> closure. A throw of \<open>getClient\<close> inside it leaves it as the thrown error,
  like a throw of the request.
\<close>

definition endCall :: "env \<Rightarrow> string \<Rightarrow> string \<Rightarrow> world \<Rightarrow> (error + string) \<times> world" where
  "endCall e serverUrl cid w =
     (case getClient e serverUrl of
        Inl err \<Rightarrow> (Inl err, w)
      | Inr client \<Rightarrow>
          (let w1 = request serverUrl (EndCall cid) w
           in case client_endCall client cid of
                Inl err \<Rightarrow> (Inl err, forceLogoutIfNecessary serverUrl err w1)
              | Inr data \<Rightarrow> (Inr data, w1)))"

text \<open>\<open>(e as ClientError).message || 'unable to complete command, see server logs'\<close>\<close>

definition message_or_default :: "error \<Rightarrow> string" where
  "message_or_default err =
     (case err of
        ClientError m \<Rightarrow> if m = [] then ''unable to complete command, see server logs'' else m
      | ErrorString _ \<Rightarrow> ''unable to complete command, see server logs'')"

text \<open>Pressing a button that has a handler runs the handler.\<close>

fun press :: "env \<Rightarrow> handler \<Rightarrow> world \<Rightarrow> world" where
  "press e (OnPressEndCall serverUrl cid) w =
     (case endCall e serverUrl cid w of
        (Inl err, w1) \<Rightarrow>
          emit (Alert (Plain ''Error'') (Plain (''Error: '' @ message_or_default err)) []) w1
      | (Inr _, w1) \<Rightarrow> w1)"

definition permission_alert :: event where
  "permission_alert =
     Alert (FormatMessage ''mobile.calls_end_permission_title'' [])
           (FormatMessage ''mobile.calls_end_permission_msg'' []) []"

definition endCallAlert :: "env \<Rightarrow> string \<Rightarrow> string \<Rightarrow> world \<Rightarrow> world" where
  "endCallAlert e serverUrl cid w =
     (case serverDatabases e serverUrl of
        None \<Rightarrow> w
      | Some db \<Rightarrow>
     (case getCurrentUser db of
        None \<Rightarrow> w
      | Some currentUser \<Rightarrow>
     (case getChannelById db cid of
        None \<Rightarrow> w
      | Some channel \<Rightarrow>
     (case map_of (calls w serverUrl) cid of
        None \<Rightarrow> w
      | Some c \<Rightarrow>
          (let numParticipants = length (participants c);
               isAdmin = isSystemAdmin e (roles currentUser)
           in if \<not> isAdmin \<and> id_user currentUser \<noteq> creatorId c
              then emit permission_alert w
              else
                (let title = FormatMessage ''mobile.calls_end_call_title'' [];
                     msg =
                       (if channel_type channel = DM_CHANNEL e
                        then FormatMessage ''mobile.calls_end_msg_dm''
                               [(''displayName'', PStr (dmDisplayName e db channel currentUser))]
                        else FormatMessage ''mobile.calls_end_msg_channel''
                               [(''numParticipants'', PNum numParticipants),
                                (''displayName'', PStr (displayName channel))]);
                     cancel = FormatMessage ''mobile.post.cancel'' []
                 in emit
                      (Alert title msg
                         [\<lparr>button_text = cancel, onPress = None\<rparr>,
                          \<lparr>button_text = title,
                           onPress = Some (OnPressEndCall serverUrl cid)\<rparr>])
                      w))))))"

subsection \<open>The operations of the module\<close>

datatype action =
    Do_loadConfig string bool
  | Do_loadCalls string string
  | Do_checkIsCallsPluginEnabled string
  | Do_enableChannelCalls string string
  | Do_disableChannelCalls string string
  | Do_joinCall string string
  | Do_leaveCall
  | Do_muteMyself
  | Do_unmuteMyself
  | Do_raiseHand
  | Do_unraiseHand
  | Do_setSpeakerphoneOn bool
  | Do_endCallAlert string string
  | Do_press handler

fun step :: "env \<Rightarrow> action \<Rightarrow> world \<Rightarrow> world" where
  "step e (Do_loadConfig serverUrl force) w = snd (loadConfig e serverUrl force w)"
| "step e (Do_loadCalls serverUrl userId) w = snd (loadCalls e serverUrl userId w)"
| "step e (Do_checkIsCallsPluginEnabled serverUrl) w = snd (checkIsCallsPluginEnabled e serverUrl w)"
| "step e (Do_enableChannelCalls serverUrl cid) w = snd (enableChannelCalls e serverUrl cid w)"
| "step e (Do_disableChannelCalls serverUrl cid) w = snd (disableChannelCalls e serverUrl cid w)"
| "step e (Do_joinCall serverUrl cid) w = snd (joinCall e serverUrl cid w)"
| "step e Do_leaveCall w = leaveCall w"
| "step e Do_muteMyself w = muteMyself w"
| "step e Do_unmuteMyself w = unmuteMyself w"
| "step e Do_raiseHand w = raiseHand w"
| "step e Do_unraiseHand w = unraiseHand w"
| "step e (Do_setSpeakerphoneOn b) w = setSpeakerphoneOn b w"
| "step e (Do_endCallAlert serverUrl cid) w = endCallAlert e serverUrl cid w"
| "step e (Do_press h) w = press e h w"

text \<open>
  A button can be pressed once an alert that has it was shown: \<open>offered w h\<close> says that
  the trace of \<open>w\<close> has an alert with a button whose handler is \<open>h\<close>, and a \<open>run\<close> is a
  sequence of operations, each in an environment of its own, in which a handler is run
  only when it was offered.
\<close>

definition offers :: "event \<Rightarrow> handler \<Rightarrow> bool" where
  "offers ev h = (case ev of Alert _ _ bs \<Rightarrow> (\<exists>b \<in> set bs. onPress b = Some h) | _ \<Rightarrow> False)"

definition offered :: "world \<Rightarrow> handler \<Rightarrow> bool" where
  "offered w h = (\<exists>ev \<in> set (trace w). offers ev h)"

inductive run :: "world \<Rightarrow> world \<Rightarrow> bool" for w0 :: world where
  run_start: "run w0 w0"
| run_step: "run w0 w \<Longrightarrow> (\<forall>h. a = Do_press h \<longrightarrow> offered w h) \<Longrightarrow> run w0 (step e a w)"

text \<open>The events an operation appended to the trace.\<close>

definition new_events :: "world \<Rightarrow> world \<Rightarrow> event list" where
  "new_events w w' = drop (length (trace w)) (trace w')"

definition is_MyselfJoinedCall :: "event \<Rightarrow> bool" where
  "is_MyselfJoinedCall ev = (case ev of MyselfJoinedCall _ _ \<Rightarrow> True | _ \<Rightarrow> False)"

definition is_Request :: "event \<Rightarrow> bool" where
  "is_Request ev = (case ev of Request _ _ \<Rightarrow> True | _ \<Rightarrow> False)"

subsection \<open>Concrete servers, used to run the operations\<close>

definition default_config :: obj where
  "default_config =
     [''pluginEnabled'' \<mapsto> JBool False, ''AllowEnableCalls'' \<mapsto> JBool False,
      ''last_retrieved_at'' \<mapsto> JNum 0]"

definition server_config :: obj where
  "server_config = [''AllowEnableCalls'' \<mapsto> JBool True, ''ICEServers'' \<mapsto> JArr [''stun:a'']]"

definition cached_config :: obj where
  "cached_config =
     [''pluginEnabled'' \<mapsto> JBool True, ''AllowEnableCalls'' \<mapsto> JBool False,
      ''last_retrieved_at'' \<mapsto> JNum 5000]"

definition call_a :: ServerCallState where
  "call_a =
     \<lparr>users = [''u1'', ''u2'', ''u3''],
      states = Some [\<lparr>unmuted = False, raised_hand = 7\<rparr>, \<lparr>unmuted = True, raised_hand = 3\<rparr>],
      start_at = 100, screen_sharing_id = ''none'', thread_id = ''t1'', creator_id = ''u1''\<rparr>"

definition server_calls :: "ServerChannelState list" where
  "server_calls =
     [\<lparr>channel_id = ''ch1'', enabled = True, call = Some call_a\<rparr>,
      \<lparr>channel_id = ''ch2'', enabled = False, call = None\<rparr>]"

definition client_up :: Client where
  "client_up =
     \<lparr>client_getCallsConfig = Inr server_config,
      client_getCalls = Inr server_calls,
      client_getPluginsManifests = Inr [\<lparr>id_manifest = ''other''\<rparr>, \<lparr>id_manifest = ''calls''\<rparr>],
      client_enableChannelCalls = (\<lambda>_. Inr ()),
      client_disableChannelCalls = (\<lambda>_. Inr ()),
      client_endCall = (\<lambda>_. Inr ''ok'')\<rparr>"

definition client_down :: Client where
  "client_down =
     \<lparr>client_getCallsConfig = Inl (ClientError ''timeout''),
      client_getCalls = Inl (ClientError ''timeout''),
      client_getPluginsManifests = Inl (ClientError ''timeout''),
      client_enableChannelCalls = (\<lambda>_. Inl (ClientError ''timeout'')),
      client_disableChannelCalls = (\<lambda>_. Inl (ClientError ''timeout'')),
      client_endCall = (\<lambda>_. Inl (ClientError ''timeout''))\<rparr>"

text \<open>A server whose only call has the single user id \<open>__proto__\<close>.\<close>

definition call_proto :: ServerCallState where
  "call_proto =
     \<lparr>users = [''__proto__''],
      states = Some [\<lparr>unmuted = True, raised_hand = 0\<rparr>],
      start_at = 100, screen_sharing_id = ''none'', thread_id = ''t1'', creator_id = ''u1''\<rparr>"

definition client_proto :: Client where
  "client_proto =
     client_up\<lparr>client_getCalls :=
                 Inr [\<lparr>channel_id = ''ch1'', enabled = True, call = Some call_proto\<rparr>]\<rparr>"

definition conn_ready :: CallsConnection where
  "conn_ready = \<lparr>conn_id = 1, waitForReady = Inr ()\<rparr>"

definition conn_stuck :: CallsConnection where
  "conn_stuck = \<lparr>conn_id = 2, waitForReady = Inl (ClientError ''ws closed'')\<rparr>"

definition user_member :: UserModel where
  "user_member = \<lparr>id_user = ''u2'', roles = ''system_user''\<rparr>"

definition user_creator :: UserModel where
  "user_creator = \<lparr>id_user = ''u1'', roles = ''system_user''\<rparr>"

definition channel_town :: ChannelModel where
  "channel_town = \<lparr>displayName = ''Town Square'', channel_type = ''O'', channel_name = ''town''\<rparr>"

text \<open>A database with the given current user that knows channel \<open>ch1\<close> only.\<close>

definition db_of :: "UserModel \<Rightarrow> database" where
  "db_of u =
     \<lparr>getCurrentUser = Some u,
      getChannelById = (\<lambda>c. if c = ''ch1'' then Some channel_town else None)\<rparr>"

text \<open>
  An environment with one server \<open>s1\<close>, whose client and current user are given; a
  connection to \<open>ch1\<close> gets ready, one to \<open>ch2\<close> does not, any other cannot be made.
\<close>

definition env_of :: "Client \<Rightarrow> UserModel \<Rightarrow> env" where
  "env_of client u =
     \<lparr>Date_now = 6000,
      RefreshConfigMillis = 2000,
      PluginId = ''calls'',
      DM_CHANNEL = ''D'',
      DefaultCallsConfig = default_config,
      getClient = (\<lambda>s. if s = ''s1'' then Inr client else Inl (ClientError ''client not found'')),
      hasMicrophonePermission = True,
      newConnection =
        (\<lambda>s c. if c = ''ch1'' then Inr conn_ready
               else if c = ''ch2'' then Inr conn_stuck
               else Inl (ClientError ''no websocket'')),
      serverDatabases = (\<lambda>s. if s = ''s1'' then Some (db_of u) else None),
      isSystemAdmin = (\<lambda>r. r = ''system_admin''),
      dmDisplayName = (\<lambda>_ _ _. ''someone'')\<rparr>"

definition world_fresh :: world where
  "world_fresh =
     \<lparr>callsConfig = (\<lambda>_. cached_config),
      channelEnabled = (\<lambda>_. []),
      calls = (\<lambda>_. []),
      connection = None,
      trace = []\<rparr>"

text \<open>A server that answers, without the calls plugin among its manifests.\<close>

definition client_no_plugin :: Client where
  "client_no_plugin = client_up\<lparr>client_getPluginsManifests := Inr [\<lparr>id_manifest = ''other''\<rparr>]\<rparr>"

text \<open>A call started by \<open>u1\<close> with two participants, as stored for a channel.\<close>

definition stored_call :: "string \<Rightarrow> Call" where
  "stored_call c =
     \<lparr>participants =
        [(''u1'', \<lparr>id_cp = ''u1'', muted = False, raisedHand = 0\<rparr>),
         (''u2'', \<lparr>id_cp = ''u2'', muted = True, raisedHand = 0\<rparr>)],
      channelId = c, startTime = 100, screenOn = ''none'', threadId = ''t1'',
      creatorId = ''u1''\<rparr>"

text \<open>A store with calls in the channels \<open>ch1\<close> and \<open>ch9\<close> of every server.\<close>

definition world_calls :: world where
  "world_calls =
     world_fresh\<lparr>calls := (\<lambda>_. [(''ch1'', stored_call ''ch1''), (''ch9'', stored_call ''ch9'')])\<rparr>"

section \<open>Properties\<close>

subsection \<open>Shared facts\<close>

lemmas store_defs =
  emit_def forceLogoutIfNecessary_def request_def getCallsConfig_def setConfig_def
  setChannelEnabled_def setCalls_def setPluginEnabled_def myselfJoinedCall_def
  myselfLeftCall_def

lemmas example_defs =
  env_of_def world_fresh_def client_up_def client_down_def db_of_def

subsection \<open>loadConfig\<close>



text \<open>
  C2. When the request \<open>getCallsConfig\<close> is made (the call is forced or the cached config
  is stale, and the server has a client) and fails, \<open>loadConfig\<close> returns the error and
  the stored config of the server is \<open>DefaultCallsConfig\<close> with \<open>last_retrieved_at\<close> set
  to now, whatever was cached before.
\<close>

theorem loadConfig_fetch_error_resets:
  assumes "force \<or> \<not> Date_now e - lastRetrievedAt (getCallsConfig w serverUrl)
                       < RefreshConfigMillis e"
    and "getClient e serverUrl = Inr client"
    and "client_getCallsConfig client = Inl err"
  shows "fst (loadConfig e serverUrl force w) = Inl err
     \<and> getCallsConfig (snd (loadConfig e serverUrl force w)) serverUrl
         = (DefaultCallsConfig e)(''last_retrieved_at'' \<mapsto> JNum (Date_now e))"
  using assms by (auto simp: loadConfig_def Let_def store_defs)

theorem loadConfig_fetch_error_resets_witness:
  "getClient (env_of client_down user_member) ''s1'' = Inr client_down
   \<and> client_getCallsConfig client_down = Inl (ClientError ''timeout'')
   \<and> fst (loadConfig (env_of client_down user_member) ''s1'' True world_fresh)
       = Inl (ClientError ''timeout'')
   \<and> getCallsConfig (snd (loadConfig (env_of client_down user_member) ''s1'' True world_fresh))
        ''s1'' ''pluginEnabled'' = Some (JBool False)
   \<and> getCallsConfig (snd (loadConfig (env_of client_down user_member) ''s1'' True world_fresh))
        ''s1'' ''last_retrieved_at'' = Some (JNum 6000)"
  using loadConfig_fetch_error_resets
          [of True "env_of client_down user_member" world_fresh "''s1''" client_down
              "ClientError ''timeout''"]
  by (simp add: example_defs default_config_def)

text \<open>
  C3, as the code has it. On a successful fetch the stored config is the cached config
  overlaid with the fetched data, with \<open>last_retrieved_at\<close> set to now: a field takes the
  fetched value when the data has it, \<open>last_retrieved_at\<close> is now, and every other field
  of the cached config is kept.
\<close>

theorem loadConfig_success_overlays:
  assumes "force \<or> \<not> Date_now e - lastRetrievedAt (getCallsConfig w serverUrl)
                       < RefreshConfigMillis e"
    and "getClient e serverUrl = Inr client"
    and "client_getCallsConfig client = Inr data"
  shows "fst (loadConfig e serverUrl force w)
           = Inr (getCallsConfig (snd (loadConfig e serverUrl force w)) serverUrl)
     \<and> getCallsConfig (snd (loadConfig e serverUrl force w)) serverUrl k
         = (if k = ''last_retrieved_at'' then Some (JNum (Date_now e))
            else case data k of Some v \<Rightarrow> Some v | None \<Rightarrow> getCallsConfig w serverUrl k)"
  using assms by (auto simp: loadConfig_def Let_def store_defs map_add_def split: option.splits)

theorem loadConfig_success_overlays_witness:
  "getClient (env_of client_up user_member) ''s1'' = Inr client_up
   \<and> client_getCallsConfig client_up = Inr server_config
   \<and> getCallsConfig (snd (loadConfig (env_of client_up user_member) ''s1'' True world_fresh))
        ''s1'' ''AllowEnableCalls'' = Some (JBool True)"
  using loadConfig_success_overlays
          [of True "env_of client_up user_member" world_fresh "''s1''" client_up server_config
              "''AllowEnableCalls''"]
  by (simp add: example_defs server_config_def)

text \<open>
  C3 as the specification words it fails on this run: the field \<open>pluginEnabled\<close> of the cached
  config is not in the fetched data and is in the stored config after a successful fetch.
\<close>

theorem loadConfig_keeps_cached_field:
  "client_getCallsConfig client_up = Inr server_config
   \<and> server_config ''pluginEnabled'' = None
   \<and> getCallsConfig world_fresh ''s1'' ''pluginEnabled'' = Some (JBool True)
   \<and> getCallsConfig (snd (loadConfig (env_of client_up user_member) ''s1'' True world_fresh))
        ''s1'' ''pluginEnabled'' = Some (JBool True)"
  by (simp add: loadConfig_def Let_def store_defs example_defs server_config_def
        cached_config_def)

subsection \<open>enableChannelCalls and disableChannelCalls\<close>

text \<open>
  C6. With the client of the server at hand, \<open>enableChannelCalls\<close> and
  \<open>disableChannelCalls\<close> make their request once. When it fails they hand the error to
  \<open>forceLogoutIfNecessary\<close>, return it, and leave the channel-enabled flags (and the rest
  of the store) as they were. When it succeeds they return the empty result and the flag
  of that channel is true (enable) or false (disable); nothing else is called.
\<close>

theorem channel_calls_toggle:
  assumes "getClient e serverUrl = Inr client"
  shows
    "(client_enableChannelCalls client cid = Inl err \<longrightarrow>
        enableChannelCalls e serverUrl cid w
          = (Inl err,
             w\<lparr>trace := trace w @ [Request serverUrl (EnableChannelCalls cid),
                                     ForceLogoutIfNecessary serverUrl err]\<rparr>))
     \<and> (client_enableChannelCalls client cid = Inr () \<longrightarrow>
        fst (enableChannelCalls e serverUrl cid w) = Inr ()
        \<and> map_of (channelEnabled (snd (enableChannelCalls e serverUrl cid w)) serverUrl) cid
            = Some True
        \<and> new_events w (snd (enableChannelCalls e serverUrl cid w))
            = [Request serverUrl (EnableChannelCalls cid)])
     \<and> (client_disableChannelCalls client cid = Inl err \<longrightarrow>
        disableChannelCalls e serverUrl cid w
          = (Inl err,
             w\<lparr>trace := trace w @ [Request serverUrl (DisableChannelCalls cid),
                                     ForceLogoutIfNecessary serverUrl err]\<rparr>))
     \<and> (client_disableChannelCalls client cid = Inr () \<longrightarrow>
        fst (disableChannelCalls e serverUrl cid w) = Inr ()
        \<and> map_of (channelEnabled (snd (disableChannelCalls e serverUrl cid w)) serverUrl) cid
            = Some False
        \<and> new_events w (snd (disableChannelCalls e serverUrl cid w))
            = [Request serverUrl (DisableChannelCalls cid)])"
  using assms
  by (simp add: enableChannelCalls_def disableChannelCalls_def Let_def store_defs
        new_events_def update_conv')

theorem channel_calls_toggle_witness:
  "getClient (env_of client_down user_member) ''s1'' = Inr client_down
   \<and> client_enableChannelCalls client_down ''ch1'' = Inl (ClientError ''timeout'')
   \<and> client_disableChannelCalls client_down ''ch1'' = Inl (ClientError ''timeout'')
   \<and> channelEnabled (snd (enableChannelCalls (env_of client_down user_member) ''s1'' ''ch1''
                             world_fresh)) = channelEnabled world_fresh
   \<and> channelEnabled (snd (disableChannelCalls (env_of client_down user_member) ''s1'' ''ch1''
                             world_fresh)) = channelEnabled world_fresh
   \<and> getClient (env_of client_up user_member) ''s1'' = Inr client_up
   \<and> client_enableChannelCalls client_up ''ch1'' = Inr ()
   \<and> client_disableChannelCalls client_up ''ch1'' = Inr ()
   \<and> map_of (channelEnabled (snd (enableChannelCalls (env_of client_up user_member) ''s1''
                                     ''ch1'' world_fresh)) ''s1'') ''ch1'' = Some True
   \<and> map_of (channelEnabled (snd (disableChannelCalls (env_of client_up user_member) ''s1''
                                     ''ch1'' world_fresh)) ''s1'') ''ch1'' = Some False"
  using channel_calls_toggle
          [of "env_of client_down user_member" "''s1''" client_down "''ch1''"
              "ClientError ''timeout''" world_fresh]
        channel_calls_toggle
          [of "env_of client_up user_member" "''s1''" client_up "''ch1''" _ world_fresh]
  by (simp add: example_defs)

subsection \<open>REST failures\<close>

text \<open>
  C7. In \<open>loadConfig\<close> (past the refresh gate), \<open>loadCalls\<close>,
  \<open>checkIsCallsPluginEnabled\<close>, \<open>enableChannelCalls\<close> and \<open>disableChannelCalls\<close>, a
  request that fails is made once, its error is passed to \<open>forceLogoutIfNecessary\<close> for
  that server, and the same error is the \<open>{error}\<close> result: the trace gains the request
  followed by the handler call and nothing else, so the request is not made again.
\<close>

theorem rest_failure_forces_logout_check:
  assumes "getClient e serverUrl = Inr client"
  shows
    "((force \<or> \<not> Date_now e - lastRetrievedAt (getCallsConfig w serverUrl)
                     < RefreshConfigMillis e)
        \<and> client_getCallsConfig client = Inl err \<longrightarrow>
        fst (loadConfig e serverUrl force w) = Inl err
        \<and> new_events w (snd (loadConfig e serverUrl force w))
            = [Request serverUrl GetCallsConfig, ForceLogoutIfNecessary serverUrl err])
     \<and> (client_getCalls client = Inl err \<longrightarrow>
        fst (loadCalls e serverUrl userId w) = Inl err
        \<and> new_events w (snd (loadCalls e serverUrl userId w))
            = [Request serverUrl GetCalls, ForceLogoutIfNecessary serverUrl err])
     \<and> (client_getPluginsManifests client = Inl err \<longrightarrow>
        fst (checkIsCallsPluginEnabled e serverUrl w) = Inl err
        \<and> new_events w (snd (checkIsCallsPluginEnabled e serverUrl w))
            = [Request serverUrl GetPluginsManifests, ForceLogoutIfNecessary serverUrl err])
     \<and> (client_enableChannelCalls client cid = Inl err \<longrightarrow>
        fst (enableChannelCalls e serverUrl cid w) = Inl err
        \<and> new_events w (snd (enableChannelCalls e serverUrl cid w))
            = [Request serverUrl (EnableChannelCalls cid), ForceLogoutIfNecessary serverUrl err])
     \<and> (client_disableChannelCalls client cid = Inl err \<longrightarrow>
        fst (disableChannelCalls e serverUrl cid w) = Inl err
        \<and> new_events w (snd (disableChannelCalls e serverUrl cid w))
            = [Request serverUrl (DisableChannelCalls cid),
               ForceLogoutIfNecessary serverUrl err])"
  using assms
  by (auto simp: loadConfig_def loadCalls_def checkIsCallsPluginEnabled_def
        enableChannelCalls_def disableChannelCalls_def Let_def store_defs new_events_def)

theorem rest_failure_forces_logout_check_witness:
  "getClient (env_of client_down user_member) ''s1'' = Inr client_down
   \<and> client_getCallsConfig client_down = Inl (ClientError ''timeout'')
   \<and> client_getCalls client_down = Inl (ClientError ''timeout'')
   \<and> client_getPluginsManifests client_down = Inl (ClientError ''timeout'')
   \<and> client_enableChannelCalls client_down ''ch1'' = Inl (ClientError ''timeout'')
   \<and> client_disableChannelCalls client_down ''ch1'' = Inl (ClientError ''timeout'')
   \<and> fst (loadCalls (env_of client_down user_member) ''s1'' ''u1'' world_fresh)
       = Inl (ClientError ''timeout'')
   \<and> new_events world_fresh
        (snd (loadConfig (env_of client_down user_member) ''s1'' True world_fresh))
       = [Request ''s1'' GetCallsConfig, ForceLogoutIfNecessary ''s1'' (ClientError ''timeout'')]"
  using rest_failure_forces_logout_check
          [of "env_of client_down user_member" "''s1''" client_down True world_fresh
              "ClientError ''timeout''" "''u1''" "''ch1''"]
  by (simp add: example_defs)

subsection \<open>Calls on the held connection\<close>

text \<open>
  C10. While the module-level connection is null, \<open>muteMyself\<close>, \<open>unmuteMyself\<close>,
  \<open>raiseHand\<close> and \<open>unraiseHand\<close> return the state they were given: nothing is appended
  to the trace, so nothing is called on any connection, and the store and the connection
  variable are as before.
\<close>

theorem no_connection_no_op:
  assumes "connection w = None"
  shows "muteMyself w = w \<and> unmuteMyself w = w \<and> raiseHand w = w \<and> unraiseHand w = w"
  using assms by (simp add: muteMyself_def unmuteMyself_def raiseHand_def unraiseHand_def)

theorem no_connection_no_op_witness:
  "connection world_fresh = None
   \<and> muteMyself world_fresh = world_fresh \<and> unmuteMyself world_fresh = world_fresh
   \<and> raiseHand world_fresh = world_fresh \<and> unraiseHand world_fresh = world_fresh"
  using no_connection_no_op [of world_fresh] by (simp add: world_fresh_def)

subsection \<open>joinCall and leaveCall\<close>

lemma checkIsCallsPluginEnabled_frame:
  "\<exists>evs. snd (checkIsCallsPluginEnabled e serverUrl w) = w\<lparr>trace := trace w @ evs\<rparr>
         \<and> (\<forall>ev \<in> set evs. ev = Request serverUrl GetPluginsManifests
                \<or> (\<exists>err. ev = ForceLogoutIfNecessary serverUrl err)
                \<or> (\<exists>b. ev = SetPluginEnabled serverUrl b))"
proof (cases "getClient e serverUrl")
  case (Inl err)
  then show ?thesis
    by (intro exI[of _ "[]"]) (simp add: checkIsCallsPluginEnabled_def)
next
  case (Inr client)
  show ?thesis
  proof (cases "client_getPluginsManifests client")
    case (Inl err)
    with Inr show ?thesis
      by (intro exI[of _ "[Request serverUrl GetPluginsManifests,
                            ForceLogoutIfNecessary serverUrl err]"])
         (simp add: checkIsCallsPluginEnabled_def Let_def store_defs)
  next
    case (Inr data)
    with \<open>getClient e serverUrl = Inr client\<close> show ?thesis
      by (intro exI[of _ "[Request serverUrl GetPluginsManifests,
                            SetPluginEnabled serverUrl
                              (findIndex (\<lambda>m. id_manifest m = PluginId e) data \<noteq> - 1)]"])
         (simp add: checkIsCallsPluginEnabled_def Let_def store_defs)
  qed
qed

text \<open>
  C4. \<open>joinCall\<close> returns the error \<open>calls plugin not enabled\<close> when the plugin check
  gives no true \<open>data\<close> (it reports false, or fails). It returns an error whenever the
  microphone permission is denied. \<open>myselfJoinedCall\<close> is called (once, for this server
  and channel) exactly when the result is \<open>{data: channelId}\<close>, and that is exactly when
  \<open>waitForReady\<close> was called on a connection and succeeded. When \<open>waitForReady\<close> was
  called and failed, the run ends with \<open>disconnect\<close> on that connection, the connection
  variable is null, and the result is the error \<open>unable to connect to the voice call\<close>.
\<close>

theorem joinCall_outcomes:
  "(let chk = fst (checkIsCallsPluginEnabled e serverUrl w);
        r = fst (joinCall e serverUrl cid w);
        w' = snd (joinCall e serverUrl cid w);
        new = new_events w w'
    in (\<not> data_truthy chk \<longrightarrow> r = Inl (ErrorString ''calls plugin not enabled''))
     \<and> (\<not> hasMicrophonePermission e \<longrightarrow> isl r)
     \<and> (chk = Inr True \<and> \<not> hasMicrophonePermission e \<longrightarrow>
          r = Inl (ErrorString ''no permissions to microphone, unable to start call''))
     \<and> filter is_MyselfJoinedCall new
          = (if r = Inr cid then [MyselfJoinedCall serverUrl cid] else [])
     \<and> (r = Inr cid \<longleftrightarrow>
          (\<exists>conn. WaitForReady conn \<in> set new \<and> waitForReady conn = Inr ()))
     \<and> (\<forall>conn. WaitForReady conn \<in> set new \<and> isl (waitForReady conn) \<longrightarrow>
          r = Inl (ErrorString ''unable to connect to the voice call'')
          \<and> connection w' = None
          \<and> (\<exists>pre. new = pre @ [WaitForReady conn, Disconnect conn])))"
proof -
  obtain evs where
    chk: "snd (checkIsCallsPluginEnabled e serverUrl w) = w\<lparr>trace := trace w @ evs\<rparr>"
    and evs: "\<forall>ev \<in> set evs. ev = Request serverUrl GetPluginsManifests
                \<or> (\<exists>err. ev = ForceLogoutIfNecessary serverUrl err)
                \<or> (\<exists>b. ev = SetPluginEnabled serverUrl b)"
    using checkIsCallsPluginEnabled_frame by blast
  have no_wait: "WaitForReady conn \<notin> set evs" for conn
    using evs by auto
  have no_joined: "filter is_MyselfJoinedCall evs = []"
    using evs by (auto simp: filter_empty_conv is_MyselfJoinedCall_def)
  obtain res w1 where c: "checkIsCallsPluginEnabled e serverUrl w = (res, w1)"
    by (cases "checkIsCallsPluginEnabled e serverUrl w")
  with chk have w1: "w1 = w\<lparr>trace := trace w @ evs\<rparr>"
    by simp
  show ?thesis
    using no_wait no_joined
    by (auto simp: joinCall_def c w1 Let_def new_events_def emit_def
          forceLogoutIfNecessary_def myselfJoinedCall_def setSpeakerphoneOn_def
          disconnect_held_def is_MyselfJoinedCall_def data_truthy_def
          split: sum.splits option.splits)
qed

theorem joinCall_outcomes_witness:
  "\<not> data_truthy (fst (checkIsCallsPluginEnabled (env_of client_no_plugin user_member) ''s1''
                           world_fresh))
   \<and> fst (joinCall (env_of client_no_plugin user_member) ''s1'' ''ch1'' world_fresh)
       = Inl (ErrorString ''calls plugin not enabled'')
   \<and> fst (checkIsCallsPluginEnabled
             ((env_of client_up user_member)\<lparr>hasMicrophonePermission := False\<rparr>) ''s1''
             world_fresh) = Inr True
   \<and> \<not> hasMicrophonePermission ((env_of client_up user_member)\<lparr>hasMicrophonePermission := False\<rparr>)
   \<and> fst (joinCall ((env_of client_up user_member)\<lparr>hasMicrophonePermission := False\<rparr>)
             ''s1'' ''ch1'' world_fresh)
       = Inl (ErrorString ''no permissions to microphone, unable to start call'')
   \<and> fst (joinCall (env_of client_up user_member) ''s1'' ''ch1'' world_fresh) = Inr ''ch1''
   \<and> WaitForReady conn_ready
       \<in> set (new_events world_fresh
                (snd (joinCall (env_of client_up user_member) ''s1'' ''ch1'' world_fresh)))
   \<and> WaitForReady conn_stuck
       \<in> set (new_events world_fresh
                (snd (joinCall (env_of client_up user_member) ''s1'' ''ch2'' world_fresh)))
   \<and> isl (waitForReady conn_stuck)
   \<and> connection (snd (joinCall (env_of client_up user_member) ''s1'' ''ch2'' world_fresh)) = None"
  using joinCall_outcomes [of "env_of client_no_plugin user_member" "''s1''" world_fresh "''ch1''"]
        joinCall_outcomes
          [of "(env_of client_up user_member)\<lparr>hasMicrophonePermission := False\<rparr>" "''s1''"
              world_fresh "''ch1''"]
        joinCall_outcomes [of "env_of client_up user_member" "''s1''" world_fresh "''ch1''"]
        joinCall_outcomes [of "env_of client_up user_member" "''s1''" world_fresh "''ch2''"]
  by (simp add: joinCall_def checkIsCallsPluginEnabled_def Let_def store_defs example_defs
        client_no_plugin_def new_events_def data_truthy_def setSpeakerphoneOn_def
        disconnect_held_def conn_ready_def conn_stuck_def)

lemma connection_emit [simp]: "connection (emit ev w) = connection w"
  by (simp add: emit_def)

lemma trace_emit [simp]: "trace (emit ev w) = trace w @ [ev]"
  by (simp add: emit_def)

lemma connection_frame:
  "connection (snd (loadConfig e serverUrl force w)) = connection w"
  "connection (snd (loadCalls e serverUrl userId w)) = connection w"
  "connection (snd (checkIsCallsPluginEnabled e serverUrl w)) = connection w"
  "connection (snd (enableChannelCalls e serverUrl cid w)) = connection w"
  "connection (snd (disableChannelCalls e serverUrl cid w)) = connection w"
  "connection (setSpeakerphoneOn b w) = connection w"
  "connection (endCallAlert e serverUrl cid w) = connection w"
  "connection (press e h w) = connection w"
  "connection (muteMyself w) = connection w"
  "connection (unmuteMyself w) = connection w"
  "connection (raiseHand w) = connection w"
  "connection (unraiseHand w) = connection w"
proof -
  show "connection (snd (loadConfig e serverUrl force w)) = connection w"
    by (simp add: loadConfig_def Let_def forceLogoutIfNecessary_def request_def setConfig_def
          split: sum.splits)
  show "connection (snd (loadCalls e serverUrl userId w)) = connection w"
    by (simp add: loadCalls_def Let_def forceLogoutIfNecessary_def request_def setCalls_def
          split: sum.splits prod.splits)
  show "connection (snd (checkIsCallsPluginEnabled e serverUrl w)) = connection w"
    by (simp add: checkIsCallsPluginEnabled_def Let_def forceLogoutIfNecessary_def request_def
          setPluginEnabled_def split: sum.splits)
  show "connection (snd (enableChannelCalls e serverUrl cid w)) = connection w"
    by (simp add: enableChannelCalls_def Let_def forceLogoutIfNecessary_def request_def
          setChannelEnabled_def split: sum.splits)
  show "connection (snd (disableChannelCalls e serverUrl cid w)) = connection w"
    by (simp add: disableChannelCalls_def Let_def forceLogoutIfNecessary_def request_def
          setChannelEnabled_def split: sum.splits)
  show "connection (setSpeakerphoneOn b w) = connection w"
    by (simp add: setSpeakerphoneOn_def)
  show "connection (endCallAlert e serverUrl cid w) = connection w"
    by (simp add: endCallAlert_def Let_def split: option.splits)
  show "connection (press e h w) = connection w"
    by (cases h)
       (simp add: endCall_def Let_def forceLogoutIfNecessary_def request_def
          split: sum.splits prod.splits)
  show "connection (muteMyself w) = connection w"
    by (simp add: muteMyself_def split: option.splits)
  show "connection (unmuteMyself w) = connection w"
    by (simp add: unmuteMyself_def split: option.splits)
  show "connection (raiseHand w) = connection w"
    by (simp add: raiseHand_def split: option.splits)
  show "connection (unraiseHand w) = connection w"
    by (simp add: unraiseHand_def split: option.splits)
qed

lemma connection_leaveCall: "connection (leaveCall w) = None"
  by (simp add: leaveCall_def myselfLeftCall_def setSpeakerphoneOn_def disconnect_held_def
        split: option.splits)

lemma connection_disconnect_held [simp]: "connection (disconnect_held w) = None"
  by (simp add: disconnect_held_def split: option.splits)

text \<open>What \<open>joinCall\<close> leaves in the connection variable, by the way it returns.\<close>

lemma connection_joinCall:
  "connection (snd (joinCall e serverUrl cid w))
     = (if \<not> data_truthy (fst (checkIsCallsPluginEnabled e serverUrl w))
           \<or> \<not> hasMicrophonePermission e
        then connection w
        else case newConnection e serverUrl cid of
               Inl err \<Rightarrow> None
             | Inr conn \<Rightarrow> (case waitForReady conn of Inl _ \<Rightarrow> None | Inr _ \<Rightarrow> Some conn))"
proof -
  obtain res w1 where c: "checkIsCallsPluginEnabled e serverUrl w = (res, w1)"
    by (cases "checkIsCallsPluginEnabled e serverUrl w")
  have "connection w1 = connection w"
    using connection_frame(3) [of e serverUrl w] c by simp
  then show ?thesis
    by (simp add: joinCall_def c Let_def forceLogoutIfNecessary_def myselfJoinedCall_def
          setSpeakerphoneOn_def split: sum.splits)
qed

lemma result_joinCall:
  "fst (joinCall e serverUrl cid w) = Inr cid \<longleftrightarrow>
     data_truthy (fst (checkIsCallsPluginEnabled e serverUrl w)) \<and> hasMicrophonePermission e
     \<and> (\<exists>conn. newConnection e serverUrl cid = Inr conn \<and> waitForReady conn = Inr ())"
proof -
  obtain res w1 where c: "checkIsCallsPluginEnabled e serverUrl w = (res, w1)"
    by (cases "checkIsCallsPluginEnabled e serverUrl w")
  show ?thesis
    by (auto simp: joinCall_def c Let_def split: sum.splits)
qed

text \<open>A \<open>joinCall\<close> that returns at one of its two checks disconnects nothing.\<close>

lemma joinCall_early_no_disconnect:
  assumes "\<not> data_truthy (fst (checkIsCallsPluginEnabled e serverUrl w))
           \<or> \<not> hasMicrophonePermission e"
  shows "Disconnect conn \<notin> set (new_events w (snd (joinCall e serverUrl cid w)))"
proof -
  obtain evs where
    chk: "snd (checkIsCallsPluginEnabled e serverUrl w) = w\<lparr>trace := trace w @ evs\<rparr>"
    and evs: "\<forall>ev \<in> set evs. ev = Request serverUrl GetPluginsManifests
                \<or> (\<exists>err. ev = ForceLogoutIfNecessary serverUrl err)
                \<or> (\<exists>b. ev = SetPluginEnabled serverUrl b)"
    using checkIsCallsPluginEnabled_frame by blast
  have no_disc: "Disconnect conn \<notin> set evs"
    using evs by auto
  obtain res w1 where c: "checkIsCallsPluginEnabled e serverUrl w = (res, w1)"
    by (cases "checkIsCallsPluginEnabled e serverUrl w")
  with chk have w1: "w1 = w\<lparr>trace := trace w @ evs\<rparr>"
    by simp
  show ?thesis
    using assms no_disc
    by (auto simp: joinCall_def c w1 Let_def new_events_def emit_def)
qed

text \<open>
  C5. After \<open>leaveCall\<close> the connection variable is null. After a \<open>joinCall\<close> that called
  \<open>disconnect\<close> and did not return \<open>{data: channelId}\<close> it is null; after one that
  did return \<open>{data: channelId}\<close> it holds the connection \<open>newConnection\<close> made for that
  call. Over all operations of the module, a connection held after an operation was held
  before it or was made by \<open>newConnection\<close> in a \<open>joinCall\<close> that returned
  \<open>{data: channelId}\<close>.
\<close>

theorem connection_nulled_on_disconnect:
  "connection (leaveCall w) = None
   \<and> ((\<exists>conn. Disconnect conn \<in> set (new_events w (snd (joinCall e serverUrl cid w))))
        \<and> fst (joinCall e serverUrl cid w) \<noteq> Inr cid \<longrightarrow>
      connection (snd (joinCall e serverUrl cid w)) = None)
   \<and> (fst (joinCall e serverUrl cid w) = Inr cid \<longrightarrow>
      (\<exists>conn. newConnection e serverUrl cid = Inr conn
           \<and> connection (snd (joinCall e serverUrl cid w)) = Some conn))
   \<and> (\<forall>a conn. connection (step e a w) = Some conn \<longrightarrow>
        connection w = Some conn
        \<or> (\<exists>s c. a = Do_joinCall s c \<and> newConnection e s c = Inr conn
                 \<and> fst (joinCall e s c w) = Inr c))"
proof (intro conjI allI impI)
  show "connection (leaveCall w) = None"
    by (rule connection_leaveCall)
next
  assume a: "(\<exists>conn. Disconnect conn \<in> set (new_events w (snd (joinCall e serverUrl cid w))))
             \<and> fst (joinCall e serverUrl cid w) \<noteq> Inr cid"
  then have late: "data_truthy (fst (checkIsCallsPluginEnabled e serverUrl w))
                   \<and> hasMicrophonePermission e"
    using joinCall_early_no_disconnect [of e serverUrl w _ cid] by blast
  with a show "connection (snd (joinCall e serverUrl cid w)) = None"
    by (auto simp: connection_joinCall result_joinCall split: sum.splits)
next
  assume "fst (joinCall e serverUrl cid w) = Inr cid"
  then show "\<exists>conn. newConnection e serverUrl cid = Inr conn
                 \<and> connection (snd (joinCall e serverUrl cid w)) = Some conn"
    by (auto simp: connection_joinCall result_joinCall)
next
  fix a conn
  assume held: "connection (step e a w) = Some conn"
  show "connection w = Some conn
        \<or> (\<exists>s c. a = Do_joinCall s c \<and> newConnection e s c = Inr conn
                 \<and> fst (joinCall e s c w) = Inr c)"
  proof (cases a)
    case (Do_joinCall s c)
    with held show ?thesis
      by (auto simp: connection_joinCall result_joinCall split: if_splits sum.splits)
  next
    case Do_leaveCall
    with held show ?thesis
      by (simp add: connection_leaveCall)
  qed (use held in \<open>simp_all add: connection_frame\<close>)
qed

theorem connection_nulled_on_disconnect_witness:
  "Disconnect conn_stuck
     \<in> set (new_events world_fresh
              (snd (joinCall (env_of client_up user_member) ''s1'' ''ch2'' world_fresh)))
   \<and> fst (joinCall (env_of client_up user_member) ''s1'' ''ch2'' world_fresh) \<noteq> Inr ''ch2''
   \<and> connection (snd (joinCall (env_of client_up user_member) ''s1'' ''ch2'' world_fresh)) = None
   \<and> fst (joinCall (env_of client_up user_member) ''s1'' ''ch1'' world_fresh) = Inr ''ch1''
   \<and> connection (step (env_of client_up user_member) (Do_joinCall ''s1'' ''ch1'') world_fresh)
       = Some conn_ready
   \<and> newConnection (env_of client_up user_member) ''s1'' ''ch1'' = Inr conn_ready"
  using connection_nulled_on_disconnect
          [of world_fresh "env_of client_up user_member" "''s1''" "''ch2''"]
        connection_nulled_on_disconnect
          [of world_fresh "env_of client_up user_member" "''s1''" "''ch1''"]
  by (simp add: joinCall_def checkIsCallsPluginEnabled_def Let_def store_defs example_defs
        new_events_def data_truthy_def setSpeakerphoneOn_def disconnect_held_def
        conn_ready_def conn_stuck_def)

subsection \<open>loadCalls\<close>

lemma set_key_cases:
  "(k', v') \<in> set (set_key k v al) \<Longrightarrow>
   (k', v') = (k, v) \<and> k \<noteq> ''__proto__'' \<or> (k', v') \<in> set al"
proof (cases "k = ''__proto__''")
  case True
  assume "(k', v') \<in> set (set_key k v al)"
  with True show ?thesis by (simp add: set_key_def)
next
  case False
  assume "(k', v') \<in> set (set_key k v al)"
  with False have "(k', v') \<in> set (AList.update k v al)"
    by (simp add: set_key_def)
  then have "(k', v') = (k, v) \<or> (k', v') \<in> set al"
    by (induction al) (auto split: if_splits)
  with False show ?thesis by simp
qed

lemma keys_set_key:
  "fst ` set (set_key k v al) = (if k = ''__proto__'' then {} else {k}) \<union> fst ` set al"
  by (simp add: set_key_def dom_update)

lemma distinct_set_key: "distinct (map fst al) \<Longrightarrow> distinct (map fst (set_key k v al))"
  by (simp add: set_key_def distinct_update)

lemma map_of_set_key:
  "map_of (set_key k v al) = (if k = ''__proto__'' then map_of al else (map_of al)(k \<mapsto> v))"
  by (simp add: set_key_def update_conv')

lemma keys_reduce_users:
  "fst ` set (reduce_users c accum curIdx us) = fst ` set accum \<union> (set us - {''__proto__''})"
  by (induction us arbitrary: accum curIdx) (auto simp: keys_set_key split: if_splits)

lemma distinct_reduce_users:
  "distinct (map fst accum) \<Longrightarrow> distinct (map fst (reduce_users c accum curIdx us))"
  by (induction us arbitrary: accum curIdx) (auto simp: distinct_set_key)

lemma reduce_users_other:
  "u \<notin> set us \<Longrightarrow> map_of (reduce_users c accum curIdx us) u = map_of accum u"
  by (induction us arbitrary: accum curIdx) (auto simp: map_of_set_key)

text \<open>The entry of a user id is the one written at the last index that holds the id.\<close>

lemma reduce_users_last:
  "i < length us \<Longrightarrow> us ! i \<noteq> ''__proto__'' \<Longrightarrow> us ! i \<notin> set (drop (Suc i) us) \<Longrightarrow>
   map_of (reduce_users c accum curIdx us) (us ! i) = Some (participant c (us ! i) (curIdx + i))"
proof (induction us arbitrary: accum curIdx i)
  case Nil
  then show ?case by simp
next
  case (Cons u us)
  show ?case
  proof (cases i)
    case 0
    with Cons.prems show ?thesis
      by (simp add: reduce_users_other map_of_set_key)
  next
    case (Suc j)
    with Cons.prems Cons.IH [of j "set_key u (participant c u curIdx) accum" "Suc curIdx"]
    show ?thesis by simp
  qed
qed

text \<open>With the key \<open>__proto__\<close> nothing is written.\<close>

lemma reduce_users_proto: "''__proto__'' \<notin> fst ` set (reduce_users c [] curIdx us)"
  using keys_reduce_users [of c "[]" curIdx us] by auto

lemma for_channels_keep:
  "k \<in> fst ` set cr \<Longrightarrow> k \<in> fst ` set (fst (for_channels (cr, en) resp))"
  by (induction resp arbitrary: cr en) (auto simp: keys_set_key split: option.splits)

lemma keys_for_channels:
  "channel \<in> set resp \<Longrightarrow> call channel = Some c \<Longrightarrow> channel_id channel \<noteq> ''__proto__'' \<Longrightarrow>
   channel_id channel \<in> fst ` set (fst (for_channels (cr, en) resp))"
proof (induction resp arbitrary: cr en)
  case Nil
  then show ?case by simp
next
  case (Cons ch resp)
  show ?case
  proof (cases "channel = ch")
    case True
    with Cons.prems show ?thesis
      by (simp add: for_channels_keep keys_set_key)
  next
    case False
    with Cons.prems Cons.IH show ?thesis by simp
  qed
qed

lemma entries_for_channels:
  "(k, cl) \<in> set (fst (for_channels (cr, en) resp)) \<Longrightarrow>
   (k, cl) \<in> set cr
   \<or> (\<exists>channel \<in> set resp. \<exists>c. call channel = Some c \<and> k = channel_id channel
         \<and> cl = toCall channel c)"
proof (induction resp arbitrary: cr en)
  case Nil
  then show ?case by simp
next
  case (Cons ch resp)
  show ?case
  proof (cases "call ch")
    case None
    with Cons.prems Cons.IH [of cr "set_key (channel_id ch) (enabled ch) en"]
    show ?thesis by auto
  next
    case (Some c)
    with Cons.prems
      Cons.IH [of "set_key (channel_id ch) (toCall ch c) cr"
                  "set_key (channel_id ch) (enabled ch) en"]
    show ?thesis
      by (auto dest: set_key_cases)
  qed
qed

lemma distinct_for_channels:
  "distinct (map fst cr) \<Longrightarrow> distinct (map fst (fst (for_channels (cr, en) resp)))"
  by (induction resp arbitrary: cr en) (auto simp: distinct_set_key split: option.splits)

lemma for_channels_other:
  "\<forall>channel \<in> set resp. call channel \<noteq> None \<longrightarrow> channel_id channel \<noteq> k \<Longrightarrow>
   map_of (fst (for_channels (cr, en) resp)) k = map_of cr k"
  by (induction resp arbitrary: cr en) (auto simp: map_of_set_key split: option.splits)

text \<open>The entry of a channel id is the call of the last channel with that id and a call.\<close>

lemma for_channels_last:
  "j < length resp \<Longrightarrow> call (resp ! j) = Some c \<Longrightarrow> channel_id (resp ! j) \<noteq> ''__proto__'' \<Longrightarrow>
   \<forall>channel \<in> set (drop (Suc j) resp).
      call channel \<noteq> None \<longrightarrow> channel_id channel \<noteq> channel_id (resp ! j) \<Longrightarrow>
   map_of (fst (for_channels (cr, en) resp)) (channel_id (resp ! j)) = Some (toCall (resp ! j) c)"
proof (induction resp arbitrary: cr en j)
  case Nil
  then show ?case by simp
next
  case (Cons ch resp)
  show ?case
  proof (cases j)
    case 0
    with Cons.prems show ?thesis
      by (simp add: for_channels_other map_of_set_key)
  next
    case (Suc j')
    with Cons.prems
      Cons.IH [of j' "case call ch of
                        Some c' \<Rightarrow> set_key (channel_id ch) (toCall ch c') cr | None \<Rightarrow> cr"
                  "set_key (channel_id ch) (enabled ch) en"]
    show ?thesis by simp
  qed
qed

lemma participant_default:
  "states c = None \<or> (\<exists>ss. states c = Some ss \<and> length ss \<le> i) \<Longrightarrow>
   participant c u i = \<lparr>id_cp = u, muted = True, raisedHand = 0\<rparr>"
  by (auto simp: participant_def state_at_def)

lemma participant_state:
  "states c = Some ss \<Longrightarrow> i < length ss \<Longrightarrow>
   participant c u i
     = \<lparr>id_cp = u, muted = (\<not> unmuted (ss ! i)), raisedHand = raised_hand (ss ! i)\<rparr>"
  by (simp add: participant_def state_at_def)

text \<open>
  What \<open>loadCalls\<close> builds for the keys other than \<open>__proto__\<close>. When \<open>getCalls\<close> answers,
  it returns (and stores) a dictionary of calls with one entry per channel id. A channel
  of the answer with a call and an id other than \<open>__proto__\<close> has an entry under its id,
  built from the last channel of the answer with that id and a call. Every entry was
  built from a channel of the answer with that id and a call, and its participants have
  exactly one entry per user id in \<open>call.users\<close> other than \<open>__proto__\<close>. The participant
  of such a user id is the one of the index of that id in \<open>call.users\<close> (the last such
  index, should the id occur more than once): when \<open>call.states\<close> is absent or has no
  entry at that index it is muted with \<open>raisedHand\<close> 0, otherwise \<open>muted\<close> is the
  negation of \<open>unmuted\<close> and \<open>raisedHand\<close> is \<open>raised_hand\<close> of the state at that index.
\<close>

theorem loadCalls_participants_own_keys:
  assumes "getClient e serverUrl = Inr client"
    and "client_getCalls client = Inr resp"
  shows
    "\<exists>callsResults enabledChannels.
       fst (loadCalls e serverUrl userId w) = Inr (callsResults, enabledChannels)
       \<and> calls (snd (loadCalls e serverUrl userId w)) serverUrl = callsResults
       \<and> distinct (map fst callsResults)
       \<and> (\<forall>j < length resp. \<forall>c.
            call (resp ! j) = Some c \<and> channel_id (resp ! j) \<noteq> ''__proto__''
            \<and> (\<forall>channel \<in> set (drop (Suc j) resp).
                  call channel \<noteq> None \<longrightarrow> channel_id channel \<noteq> channel_id (resp ! j)) \<longrightarrow>
            map_of callsResults (channel_id (resp ! j)) = Some (toCall (resp ! j) c))
       \<and> (\<forall>channel \<in> set resp. call channel \<noteq> None \<and> channel_id channel \<noteq> ''__proto__'' \<longrightarrow>
            channel_id channel \<in> fst ` set callsResults)
       \<and> (\<forall>k cl. (k, cl) \<in> set callsResults \<longrightarrow>
            (\<exists>channel \<in> set resp. \<exists>c.
               call channel = Some c \<and> channel_id channel = k
               \<and> distinct (map fst (participants cl))
               \<and> set (map fst (participants cl)) = set (users c) - {''__proto__''}
               \<and> (\<forall>i < length (users c).
                    users c ! i \<noteq> ''__proto__''
                    \<and> users c ! i \<notin> set (drop (Suc i) (users c)) \<longrightarrow>
                    (states c = None \<or> (\<exists>ss. states c = Some ss \<and> length ss \<le> i) \<longrightarrow>
                       map_of (participants cl) (users c ! i)
                         = Some \<lparr>id_cp = users c ! i, muted = True, raisedHand = 0\<rparr>)
                    \<and> (\<forall>ss. states c = Some ss \<and> i < length ss \<longrightarrow>
                       map_of (participants cl) (users c ! i)
                         = Some \<lparr>id_cp = users c ! i, muted = (\<not> unmuted (ss ! i)),
                                 raisedHand = raised_hand (ss ! i)\<rparr>))))"
proof -
  obtain cr en where fc: "for_channels ([], []) resp = (cr, en)"
    by (cases "for_channels ([], []) resp")
  have res: "fst (loadCalls e serverUrl userId w) = Inr (cr, en)"
    using assms fc by (simp add: loadCalls_def Let_def)
  have stored: "calls (snd (loadCalls e serverUrl userId w)) serverUrl = cr"
    using assms fc by (simp add: loadCalls_def Let_def setCalls_def request_def emit_def)
  have dist: "distinct (map fst cr)"
    using distinct_for_channels [of "[]" "[]" resp] fc by simp
  have last: "\<forall>j < length resp. \<forall>c.
            call (resp ! j) = Some c \<and> channel_id (resp ! j) \<noteq> ''__proto__''
            \<and> (\<forall>channel \<in> set (drop (Suc j) resp).
                  call channel \<noteq> None \<longrightarrow> channel_id channel \<noteq> channel_id (resp ! j)) \<longrightarrow>
            map_of cr (channel_id (resp ! j)) = Some (toCall (resp ! j) c)"
    using for_channels_last [of _ resp _ "[]" "[]"] fc by auto
  have keys: "\<forall>channel \<in> set resp. call channel \<noteq> None \<and> channel_id channel \<noteq> ''__proto__'' \<longrightarrow>
                channel_id channel \<in> fst ` set cr"
    using keys_for_channels [of _ resp _ "[]" "[]"] fc by auto
  have entries:
    "\<exists>channel \<in> set resp. \<exists>c.
       call channel = Some c \<and> channel_id channel = k
       \<and> distinct (map fst (participants cl))
       \<and> set (map fst (participants cl)) = set (users c) - {''__proto__''}
       \<and> (\<forall>i < length (users c).
            users c ! i \<noteq> ''__proto__'' \<and> users c ! i \<notin> set (drop (Suc i) (users c)) \<longrightarrow>
            (states c = None \<or> (\<exists>ss. states c = Some ss \<and> length ss \<le> i) \<longrightarrow>
               map_of (participants cl) (users c ! i)
                 = Some \<lparr>id_cp = users c ! i, muted = True, raisedHand = 0\<rparr>)
            \<and> (\<forall>ss. states c = Some ss \<and> i < length ss \<longrightarrow>
               map_of (participants cl) (users c ! i)
                 = Some \<lparr>id_cp = users c ! i, muted = (\<not> unmuted (ss ! i)),
                         raisedHand = raised_hand (ss ! i)\<rparr>))"
    if "(k, cl) \<in> set cr" for k cl
  proof -
    from that entries_for_channels [of k cl "[]" "[]" resp] fc
    obtain channel c where ch: "channel \<in> set resp" "call channel = Some c"
      "k = channel_id channel" "cl = toCall channel c"
      by auto
    have ps: "participants cl = reduce_users c [] 0 (users c)"
      using ch by (simp add: toCall_def)
    have d: "distinct (map fst (participants cl))"
      unfolding ps by (rule distinct_reduce_users) simp
    have k: "set (map fst (participants cl)) = set (users c) - {''__proto__''}"
      unfolding ps using keys_reduce_users [of c "[]" 0 "users c"] by simp
    have v: "map_of (participants cl) (users c ! i) = Some (participant c (users c ! i) i)"
      if "i < length (users c)" "users c ! i \<noteq> ''__proto__''"
        "users c ! i \<notin> set (drop (Suc i) (users c))" for i
      unfolding ps using reduce_users_last [OF that, of c "[]" 0] by simp
    have v': "(states c = None \<or> (\<exists>ss. states c = Some ss \<and> length ss \<le> i) \<longrightarrow>
                 map_of (participants cl) (users c ! i)
                   = Some \<lparr>id_cp = users c ! i, muted = True, raisedHand = 0\<rparr>)
              \<and> (\<forall>ss. states c = Some ss \<and> i < length ss \<longrightarrow>
                 map_of (participants cl) (users c ! i)
                   = Some \<lparr>id_cp = users c ! i, muted = (\<not> unmuted (ss ! i)),
                           raisedHand = raised_hand (ss ! i)\<rparr>)"
      if "i < length (users c)" "users c ! i \<noteq> ''__proto__''"
        "users c ! i \<notin> set (drop (Suc i) (users c))" for i
      using v [OF that] participant_default [of c i "users c ! i"]
        participant_state [of c _ i "users c ! i"]
      by auto
    show ?thesis
    proof (intro bexI[of _ channel] exI[of _ c] conjI allI impI)
      show "channel \<in> set resp" by (rule ch(1))
      show "call channel = Some c" by (rule ch(2))
      show "channel_id channel = k" using ch(3) by simp
      show "distinct (map fst (participants cl))" by (rule d)
      show "set (map fst (participants cl)) = set (users c) - {''__proto__''}" by (rule k)
    qed (use v' in \<open>blast+\<close>)
  qed
  show ?thesis
    using res stored dist last keys entries by (intro exI[of _ cr] exI[of _ en]) blast
qed

theorem loadCalls_participants_own_keys_witness:
  "getClient (env_of client_up user_member) ''s1'' = Inr client_up
   \<and> client_getCalls client_up = Inr server_calls
   \<and> states call_a = Some [\<lparr>unmuted = False, raised_hand = 7\<rparr>, \<lparr>unmuted = True, raised_hand = 3\<rparr>]
   \<and> fst (loadCalls (env_of client_up user_member) ''s1'' ''u1'' world_fresh)
       = Inr ([(''ch1'',
                \<lparr>participants =
                   [(''u1'', \<lparr>id_cp = ''u1'', muted = True, raisedHand = 7\<rparr>),
                    (''u2'', \<lparr>id_cp = ''u2'', muted = False, raisedHand = 3\<rparr>),
                    (''u3'', \<lparr>id_cp = ''u3'', muted = True, raisedHand = 0\<rparr>)],
                 channelId = ''ch1'', startTime = 100, screenOn = ''none'',
                 threadId = ''t1'', creatorId = ''u1''\<rparr>)],
              [(''ch1'', True), (''ch2'', False)])"
  using loadCalls_participants_own_keys
          [of "env_of client_up user_member" "''s1''" client_up server_calls "''u1''" world_fresh]
  by (simp add: loadCalls_def Let_def example_defs server_calls_def call_a_def toCall_def
        participant_def state_at_def set_key_def)

text \<open>
  C9. The participants of a call should have exactly one entry per user id in
  \<open>call.users\<close>. On this run they do not: the only call of the answer has the single user
  id \<open>__proto__\<close>, with a state at its index, and \<open>loadCalls\<close> returns that call with no
  participant at all, since the assignment \<open>accum[cur] = ...\<close> writes no own property
  for that key.
\<close>

theorem loadCalls_drops_proto_user:
  "getClient (env_of client_proto user_member) ''s1'' = Inr client_proto
   \<and> client_getCalls client_proto
       = Inr [\<lparr>channel_id = ''ch1'', enabled = True, call = Some call_proto\<rparr>]
   \<and> users call_proto = [''__proto__'']
   \<and> fst (loadCalls (env_of client_proto user_member) ''s1'' ''u1'' world_fresh)
       = Inr ([(''ch1'',
                \<lparr>participants = [],
                 channelId = ''ch1'', startTime = 100, screenOn = ''none'',
                 threadId = ''t1'', creatorId = ''u1''\<rparr>)],
              [(''ch1'', True)])"
  by (simp add: loadCalls_def Let_def env_of_def client_proto_def client_up_def call_proto_def
        toCall_def participant_def state_at_def set_key_def)

subsection \<open>endCallAlert\<close>

lemma new_events_emit: "new_events w (emit ev w) = [ev]"
  by (simp add: new_events_def emit_def)

lemma new_events_same: "new_events w w = []"
  by (simp add: new_events_def)

text \<open>What \<open>endCallAlert\<close> appends to the trace: nothing, or one alert.\<close>

lemma endCallAlert_events:
  "new_events w (endCallAlert e serverUrl cid w) = []
   \<or> (\<exists>t m bs. new_events w (endCallAlert e serverUrl cid w) = [Alert t m bs])"
  by (simp add: endCallAlert_def Let_def permission_alert_def new_events_emit new_events_same
        split: option.splits)

text \<open>An alert of \<open>endCallAlert\<close> with a button that has a handler is the confirmation
  dialog, shown past all five checks.\<close>

lemma endCallAlert_offer:
  assumes "Alert t m bs \<in> set (new_events w (endCallAlert e serverUrl cid w))"
    and "b \<in> set bs" and "onPress b = Some h"
  shows "h = OnPressEndCall serverUrl cid
     \<and> (\<exists>db currentUser channel c.
          serverDatabases e serverUrl = Some db \<and> getCurrentUser db = Some currentUser
          \<and> getChannelById db cid = Some channel \<and> map_of (calls w serverUrl) cid = Some c
          \<and> (isSystemAdmin e (roles currentUser) \<or> id_user currentUser = creatorId c))"
  using assms
  by (auto simp: endCallAlert_def Let_def permission_alert_def new_events_emit new_events_same
        split: option.splits if_splits)

text \<open>Of the operations of the module, only the handler makes the request \<open>endCall\<close>, and
  only \<open>endCallAlert\<close> shows an alert with a button that has a handler.\<close>

lemma joinCall_events:
  assumes "ev \<in> set (new_events w (snd (joinCall e serverUrl cid w)))"
  shows "ev = Request serverUrl GetPluginsManifests \<or> (\<forall>u r. ev \<noteq> Request u r)"
    and "\<forall>t m bs. ev \<noteq> Alert t m bs"
proof -
  obtain evs where
    chk: "snd (checkIsCallsPluginEnabled e serverUrl w) = w\<lparr>trace := trace w @ evs\<rparr>"
    and evs: "\<forall>ev \<in> set evs. ev = Request serverUrl GetPluginsManifests
                \<or> (\<exists>err. ev = ForceLogoutIfNecessary serverUrl err)
                \<or> (\<exists>b. ev = SetPluginEnabled serverUrl b)"
    using checkIsCallsPluginEnabled_frame by blast
  obtain res w1 where c: "checkIsCallsPluginEnabled e serverUrl w = (res, w1)"
    by (cases "checkIsCallsPluginEnabled e serverUrl w")
  with chk have w1: "w1 = w\<lparr>trace := trace w @ evs\<rparr>"
    by simp
  have "ev \<in> set evs \<or> (\<forall>u r. ev \<noteq> Request u r) \<and> (\<forall>t m bs. ev \<noteq> Alert t m bs)"
    using assms
    by (auto simp: joinCall_def c w1 Let_def new_events_def emit_def
          forceLogoutIfNecessary_def myselfJoinedCall_def setSpeakerphoneOn_def
          disconnect_held_def split: sum.splits option.splits if_splits)
  with evs show "ev = Request serverUrl GetPluginsManifests \<or> (\<forall>u r. ev \<noteq> Request u r)"
    and "\<forall>t m bs. ev \<noteq> Alert t m bs"
    by auto
qed

lemma step_endCall_request:
  assumes "Request u (EndCall c) \<in> set (new_events w (step e a w))"
  shows "a = Do_press (OnPressEndCall u c)"
proof (cases a)
  case (Do_loadConfig s f)
  with assms show ?thesis
    by (auto simp: loadConfig_def Let_def store_defs new_events_def
          split: sum.splits if_splits)
next
  case (Do_loadCalls s uid)
  with assms show ?thesis
    by (auto simp: loadCalls_def Let_def store_defs new_events_def
          split: sum.splits if_splits prod.splits)
next
  case (Do_checkIsCallsPluginEnabled s)
  with assms show ?thesis
    by (auto simp: checkIsCallsPluginEnabled_def Let_def store_defs new_events_def
          split: sum.splits)
next
  case (Do_enableChannelCalls s c')
  with assms show ?thesis
    by (auto simp: enableChannelCalls_def Let_def store_defs new_events_def split: sum.splits)
next
  case (Do_disableChannelCalls s c')
  with assms show ?thesis
    by (auto simp: disableChannelCalls_def Let_def store_defs new_events_def split: sum.splits)
next
  case (Do_joinCall s c')
  with assms joinCall_events(1) [of "Request u (EndCall c)" w e s c'] show ?thesis
    by auto
next
  case Do_leaveCall
  with assms show ?thesis
    by (auto simp: leaveCall_def myselfLeftCall_def setSpeakerphoneOn_def disconnect_held_def
          emit_def new_events_def split: option.splits)
next
  case Do_muteMyself
  with assms show ?thesis
    by (auto simp: muteMyself_def emit_def new_events_def split: option.splits)
next
  case Do_unmuteMyself
  with assms show ?thesis
    by (auto simp: unmuteMyself_def emit_def new_events_def split: option.splits)
next
  case Do_raiseHand
  with assms show ?thesis
    by (auto simp: raiseHand_def emit_def new_events_def split: option.splits)
next
  case Do_unraiseHand
  with assms show ?thesis
    by (auto simp: unraiseHand_def emit_def new_events_def split: option.splits)
next
  case (Do_setSpeakerphoneOn b)
  with assms show ?thesis
    by (auto simp: setSpeakerphoneOn_def emit_def new_events_def)
next
  case (Do_endCallAlert s c')
  with assms endCallAlert_events [of w e s c'] show ?thesis
    by auto
next
  case (Do_press h)
  with assms show ?thesis
    by (cases h)
       (auto simp: endCall_def Let_def store_defs new_events_def split: sum.splits)
qed

lemma step_offer:
  assumes "Alert t m bs \<in> set (new_events w (step e a w))"
    and "b \<in> set bs" and "onPress b = Some h"
  shows "\<exists>s c. a = Do_endCallAlert s c"
proof (cases a)
  case (Do_loadConfig s f)
  with assms show ?thesis
    by (auto simp: loadConfig_def Let_def store_defs new_events_def
          split: sum.splits if_splits)
next
  case (Do_loadCalls s uid)
  with assms show ?thesis
    by (auto simp: loadCalls_def Let_def store_defs new_events_def
          split: sum.splits if_splits prod.splits)
next
  case (Do_checkIsCallsPluginEnabled s)
  with assms show ?thesis
    by (auto simp: checkIsCallsPluginEnabled_def Let_def store_defs new_events_def
          split: sum.splits)
next
  case (Do_enableChannelCalls s c')
  with assms show ?thesis
    by (auto simp: enableChannelCalls_def Let_def store_defs new_events_def split: sum.splits)
next
  case (Do_disableChannelCalls s c')
  with assms show ?thesis
    by (auto simp: disableChannelCalls_def Let_def store_defs new_events_def split: sum.splits)
next
  case (Do_joinCall s c')
  with assms joinCall_events(2) [of "Alert t m bs" w e s c'] show ?thesis
    by auto
next
  case Do_leaveCall
  with assms show ?thesis
    by (auto simp: leaveCall_def myselfLeftCall_def setSpeakerphoneOn_def disconnect_held_def
          emit_def new_events_def split: option.splits)
next
  case Do_muteMyself
  with assms show ?thesis
    by (auto simp: muteMyself_def emit_def new_events_def split: option.splits)
next
  case Do_unmuteMyself
  with assms show ?thesis
    by (auto simp: unmuteMyself_def emit_def new_events_def split: option.splits)
next
  case Do_raiseHand
  with assms show ?thesis
    by (auto simp: raiseHand_def emit_def new_events_def split: option.splits)
next
  case Do_unraiseHand
  with assms show ?thesis
    by (auto simp: unraiseHand_def emit_def new_events_def split: option.splits)
next
  case (Do_setSpeakerphoneOn b)
  with assms show ?thesis
    by (auto simp: setSpeakerphoneOn_def emit_def new_events_def)
next
  case (Do_endCallAlert s c')
  then show ?thesis by simp
next
  case (Do_press h')
  with assms show ?thesis
    by (cases h')
       (auto simp: endCall_def Let_def store_defs new_events_def split: sum.splits)
qed

text \<open>Every operation only appends to the trace.\<close>

lemma trace_joinCall:
  "\<exists>evs. trace (snd (joinCall e serverUrl cid w)) = trace w @ evs"
proof -
  obtain evs where
    chk: "snd (checkIsCallsPluginEnabled e serverUrl w) = w\<lparr>trace := trace w @ evs\<rparr>"
    using checkIsCallsPluginEnabled_frame by blast
  obtain res w1 where c: "checkIsCallsPluginEnabled e serverUrl w = (res, w1)"
    by (cases "checkIsCallsPluginEnabled e serverUrl w")
  with chk have w1: "w1 = w\<lparr>trace := trace w @ evs\<rparr>"
    by simp
  show ?thesis
    by (simp add: joinCall_def c w1 Let_def emit_def forceLogoutIfNecessary_def
          myselfJoinedCall_def setSpeakerphoneOn_def disconnect_held_def
          split: sum.splits option.splits)
qed

lemma trace_step: "\<exists>evs. trace (step e a w) = trace w @ evs"
proof (cases a)
  case (Do_loadConfig s f)
  then show ?thesis
    by (simp add: loadConfig_def Let_def store_defs split: sum.splits)
next
  case (Do_loadCalls s uid)
  then show ?thesis
    by (simp add: loadCalls_def Let_def store_defs split: sum.splits prod.splits)
next
  case (Do_checkIsCallsPluginEnabled s)
  then show ?thesis
    by (simp add: checkIsCallsPluginEnabled_def Let_def store_defs split: sum.splits)
next
  case (Do_enableChannelCalls s c')
  then show ?thesis
    by (simp add: enableChannelCalls_def Let_def store_defs split: sum.splits)
next
  case (Do_disableChannelCalls s c')
  then show ?thesis
    by (simp add: disableChannelCalls_def Let_def store_defs split: sum.splits)
next
  case (Do_joinCall s c')
  then show ?thesis
    by (simp add: trace_joinCall)
next
  case Do_leaveCall
  then show ?thesis
    by (simp add: leaveCall_def myselfLeftCall_def setSpeakerphoneOn_def disconnect_held_def
          emit_def split: option.splits)
next
  case Do_muteMyself
  then show ?thesis
    by (simp add: muteMyself_def emit_def split: option.splits)
next
  case Do_unmuteMyself
  then show ?thesis
    by (simp add: unmuteMyself_def emit_def split: option.splits)
next
  case Do_raiseHand
  then show ?thesis
    by (simp add: raiseHand_def emit_def split: option.splits)
next
  case Do_unraiseHand
  then show ?thesis
    by (simp add: unraiseHand_def emit_def split: option.splits)
next
  case (Do_setSpeakerphoneOn b)
  then show ?thesis
    by (simp add: setSpeakerphoneOn_def emit_def)
next
  case (Do_endCallAlert s c')
  then show ?thesis
    by (simp add: endCallAlert_def Let_def emit_def split: option.splits)
next
  case (Do_press h)
  then show ?thesis
    by (cases h) (simp add: endCall_def Let_def store_defs split: sum.splits)
qed

lemma offered_step: "offered w h \<Longrightarrow> offered (step e a w) h"
  using trace_step [of e a w] by (auto simp: offered_def)

text \<open>In a run, a request \<open>endCall\<close> that was not in the trace at the start was made by a
  handler that an alert of the trace offers.\<close>

lemma run_endCall_offered:
  assumes "run w0 w" and "Request u (EndCall c) \<notin> set (trace w0)"
    and "Request u (EndCall c) \<in> set (trace w)"
  shows "offered w (OnPressEndCall u c)"
  using assms
proof (induction rule: run.induct)
  case run_start
  then show ?case by simp
next
  case (run_step w a e)
  obtain evs where evs: "trace (step e a w) = trace w @ evs"
    using trace_step by blast
  then have new: "new_events w (step e a w) = evs"
    by (simp add: new_events_def)
  show ?case
  proof (cases "Request u (EndCall c) \<in> set (trace w)")
    case True
    with run_step show ?thesis
      by (simp add: offered_step)
  next
    case False
    with run_step.prems evs new have "Request u (EndCall c) \<in> set (new_events w (step e a w))"
      by simp
    then have "a = Do_press (OnPressEndCall u c)"
      by (rule step_endCall_request)
    with run_step.hyps have "offered w (OnPressEndCall u c)"
      by simp
    then show ?thesis
      by (rule offered_step)
  qed
qed

text \<open>
  C8, as the code has it. When the server database, the current user, the channel and a
  call for the channel all exist and the current user is neither a system admin nor the
  creator of the call, \<open>endCallAlert\<close> shows the permission alert, which has no button
  with a handler, and does nothing else. When the database, the current user, the channel
  or the call is missing, \<open>endCallAlert\<close> returns the state it was given: it shows no
  alert. \<open>endCallAlert\<close> never makes a request itself. An alert it shows has a button
  with a handler only when the database, the current user, the channel and the call exist
  and the user is a system admin or the creator; the handler is then the one that ends
  the call of this channel. Among the operations of the module, the request \<open>endCall\<close>
  is made by that handler only, and a button with a handler is shown by \<open>endCallAlert\<close>
  only. So in a run in which a handler is run only once it was offered, every request
  \<open>endCall\<close> made during the run was offered by an alert of the trace.
\<close>

theorem endCallAlert_permission:
  "(\<forall>db currentUser channel c.
      serverDatabases e serverUrl = Some db \<and> getCurrentUser db = Some currentUser
      \<and> getChannelById db cid = Some channel \<and> map_of (calls w serverUrl) cid = Some c
      \<and> \<not> isSystemAdmin e (roles currentUser) \<and> id_user currentUser \<noteq> creatorId c \<longrightarrow>
      endCallAlert e serverUrl cid w = emit permission_alert w)
   \<and> (serverDatabases e serverUrl = None
        \<or> (\<exists>db. serverDatabases e serverUrl = Some db
                \<and> (getCurrentUser db = None \<or> getChannelById db cid = None))
        \<or> map_of (calls w serverUrl) cid = None \<longrightarrow>
      endCallAlert e serverUrl cid w = w)
   \<and> filter is_Request (new_events w (endCallAlert e serverUrl cid w)) = []
   \<and> (\<forall>t m bs b h.
        Alert t m bs \<in> set (new_events w (endCallAlert e serverUrl cid w))
        \<and> b \<in> set bs \<and> onPress b = Some h \<longrightarrow>
        h = OnPressEndCall serverUrl cid
        \<and> (\<exists>db currentUser channel c.
             serverDatabases e serverUrl = Some db \<and> getCurrentUser db = Some currentUser
             \<and> getChannelById db cid = Some channel \<and> map_of (calls w serverUrl) cid = Some c
             \<and> (isSystemAdmin e (roles currentUser) \<or> id_user currentUser = creatorId c)))
   \<and> (\<forall>a u c. Request u (EndCall c) \<in> set (new_events w (step e a w)) \<longrightarrow>
        a = Do_press (OnPressEndCall u c))
   \<and> (\<forall>a t m bs b h.
        Alert t m bs \<in> set (new_events w (step e a w)) \<and> b \<in> set bs \<and> onPress b = Some h \<longrightarrow>
        (\<exists>s c. a = Do_endCallAlert s c))
   \<and> (\<forall>w' u c.
        run w w' \<and> Request u (EndCall c) \<notin> set (trace w)
        \<and> Request u (EndCall c) \<in> set (trace w') \<longrightarrow>
        offered w' (OnPressEndCall u c))"
proof (intro conjI allI impI)
  fix db currentUser channel c
  assume "serverDatabases e serverUrl = Some db \<and> getCurrentUser db = Some currentUser
      \<and> getChannelById db cid = Some channel \<and> map_of (calls w serverUrl) cid = Some c
      \<and> \<not> isSystemAdmin e (roles currentUser) \<and> id_user currentUser \<noteq> creatorId c"
  then show "endCallAlert e serverUrl cid w = emit permission_alert w"
    by (simp add: endCallAlert_def Let_def)
next
  assume "serverDatabases e serverUrl = None
        \<or> (\<exists>db. serverDatabases e serverUrl = Some db
                \<and> (getCurrentUser db = None \<or> getChannelById db cid = None))
        \<or> map_of (calls w serverUrl) cid = None"
  then show "endCallAlert e serverUrl cid w = w"
    by (auto simp: endCallAlert_def split: option.splits)
next
  show "filter is_Request (new_events w (endCallAlert e serverUrl cid w)) = []"
    using endCallAlert_events [of w e serverUrl cid] by (auto simp: is_Request_def)
next
  fix t m bs b h
  assume a: "Alert t m bs \<in> set (new_events w (endCallAlert e serverUrl cid w))
             \<and> b \<in> set bs \<and> onPress b = Some h"
  then show "h = OnPressEndCall serverUrl cid"
    using endCallAlert_offer [of t m bs w e serverUrl cid b h] by blast
  from a show "\<exists>db currentUser channel c.
             serverDatabases e serverUrl = Some db \<and> getCurrentUser db = Some currentUser
             \<and> getChannelById db cid = Some channel \<and> map_of (calls w serverUrl) cid = Some c
             \<and> (isSystemAdmin e (roles currentUser) \<or> id_user currentUser = creatorId c)"
    using endCallAlert_offer [of t m bs w e serverUrl cid b h] by blast
next
  fix a u c
  assume "Request u (EndCall c) \<in> set (new_events w (step e a w))"
  then show "a = Do_press (OnPressEndCall u c)"
    by (rule step_endCall_request)
next
  fix a t m bs b h
  assume "Alert t m bs \<in> set (new_events w (step e a w)) \<and> b \<in> set bs \<and> onPress b = Some h"
  then show "\<exists>s c. a = Do_endCallAlert s c"
    using step_offer [of t m bs w e a b h] by blast
next
  fix w' u c
  assume "run w w' \<and> Request u (EndCall c) \<notin> set (trace w)
        \<and> Request u (EndCall c) \<in> set (trace w')"
  then show "offered w' (OnPressEndCall u c)"
    using run_endCall_offered [of w w' u c] by blast
qed

theorem endCallAlert_permission_witness:
  "serverDatabases (env_of client_up user_member) ''s1'' = Some (db_of user_member)
   \<and> getCurrentUser (db_of user_member) = Some user_member
   \<and> getChannelById (db_of user_member) ''ch1'' = Some channel_town
   \<and> map_of (calls world_calls ''s1'') ''ch1'' = Some (stored_call ''ch1'')
   \<and> \<not> isSystemAdmin (env_of client_up user_member) (roles user_member)
   \<and> id_user user_member \<noteq> creatorId (stored_call ''ch1'')
   \<and> new_events world_calls (endCallAlert (env_of client_up user_member) ''s1'' ''ch1'' world_calls)
       = [permission_alert]
   \<and> new_events world_calls (endCallAlert (env_of client_up user_creator) ''s1'' ''ch1'' world_calls)
       = [Alert (FormatMessage ''mobile.calls_end_call_title'' [])
            (FormatMessage ''mobile.calls_end_msg_channel''
               [(''numParticipants'', PNum 2), (''displayName'', PStr ''Town Square'')])
            [\<lparr>button_text = FormatMessage ''mobile.post.cancel'' [], onPress = None\<rparr>,
             \<lparr>button_text = FormatMessage ''mobile.calls_end_call_title'' [],
              onPress = Some (OnPressEndCall ''s1'' ''ch1'')\<rparr>]]
   \<and> id_user user_creator = creatorId (stored_call ''ch1'')
   \<and> new_events world_calls
        (step (env_of client_up user_creator) (Do_press (OnPressEndCall ''s1'' ''ch1'')) world_calls)
       = [Request ''s1'' (EndCall ''ch1'')]
   \<and> serverDatabases (env_of client_up user_member) ''s2'' = None
   \<and> endCallAlert (env_of client_up user_member) ''s2'' ''ch1'' world_calls = world_calls
   \<and> run world_calls
        (step (env_of client_up user_creator) (Do_press (OnPressEndCall ''s1'' ''ch1''))
           (step (env_of client_up user_creator) (Do_endCallAlert ''s1'' ''ch1'') world_calls))
   \<and> Request ''s1'' (EndCall ''ch1'') \<notin> set (trace world_calls)
   \<and> Request ''s1'' (EndCall ''ch1'')
       \<in> set (trace
                (step (env_of client_up user_creator) (Do_press (OnPressEndCall ''s1'' ''ch1''))
                   (step (env_of client_up user_creator) (Do_endCallAlert ''s1'' ''ch1'')
                      world_calls)))
   \<and> offered
        (step (env_of client_up user_creator) (Do_press (OnPressEndCall ''s1'' ''ch1''))
           (step (env_of client_up user_creator) (Do_endCallAlert ''s1'' ''ch1'') world_calls))
        (OnPressEndCall ''s1'' ''ch1'')"
proof -
  note T = endCallAlert_permission [of "env_of client_up user_member" "''s1''" "''ch1''" world_calls]
  note T2 = endCallAlert_permission [of "env_of client_up user_member" "''s2''" "''ch1''" world_calls]
  have prem:
    "serverDatabases (env_of client_up user_member) ''s1'' = Some (db_of user_member)
     \<and> getCurrentUser (db_of user_member) = Some user_member
     \<and> getChannelById (db_of user_member) ''ch1'' = Some channel_town
     \<and> map_of (calls world_calls ''s1'') ''ch1'' = Some (stored_call ''ch1'')
     \<and> \<not> isSystemAdmin (env_of client_up user_member) (roles user_member)
     \<and> id_user user_member \<noteq> creatorId (stored_call ''ch1'')"
    by (simp add: example_defs world_calls_def stored_call_def user_member_def)
  have "endCallAlert (env_of client_up user_member) ''s1'' ''ch1'' world_calls
          = emit permission_alert world_calls"
    using T [THEN conjunct1] prem by blast
  then have denied:
    "new_events world_calls
       (endCallAlert (env_of client_up user_member) ''s1'' ''ch1'' world_calls)
     = [permission_alert]"
    by (simp add: new_events_emit)
  have dialog:
    "new_events world_calls
       (endCallAlert (env_of client_up user_creator) ''s1'' ''ch1'' world_calls)
     = [Alert (FormatMessage ''mobile.calls_end_call_title'' [])
          (FormatMessage ''mobile.calls_end_msg_channel''
             [(''numParticipants'', PNum 2), (''displayName'', PStr ''Town Square'')])
          [\<lparr>button_text = FormatMessage ''mobile.post.cancel'' [], onPress = None\<rparr>,
           \<lparr>button_text = FormatMessage ''mobile.calls_end_call_title'' [],
            onPress = Some (OnPressEndCall ''s1'' ''ch1'')\<rparr>]]"
    by (simp add: endCallAlert_def Let_def emit_def example_defs world_calls_def
          stored_call_def user_creator_def channel_town_def new_events_def)
  have pressed:
    "new_events world_calls
       (step (env_of client_up user_creator) (Do_press (OnPressEndCall ''s1'' ''ch1''))
          world_calls)
     = [Request ''s1'' (EndCall ''ch1'')]"
    by (simp add: endCall_def Let_def request_def emit_def example_defs world_calls_def
          new_events_def)
  have creator: "id_user user_creator = creatorId (stored_call ''ch1'')"
    by (simp add: user_creator_def stored_call_def)
  have nodb: "serverDatabases (env_of client_up user_member) ''s2'' = None"
    by (simp add: env_of_def)
  have silent: "endCallAlert (env_of client_up user_member) ''s2'' ''ch1'' world_calls = world_calls"
    using T2 [THEN conjunct2, THEN conjunct1] nodb by blast
  let ?w1 = "step (env_of client_up user_creator) (Do_endCallAlert ''s1'' ''ch1'') world_calls"
  let ?w2 = "step (env_of client_up user_creator) (Do_press (OnPressEndCall ''s1'' ''ch1'')) ?w1"
  have tr1: "trace ?w1
     = [Alert (FormatMessage ''mobile.calls_end_call_title'' [])
          (FormatMessage ''mobile.calls_end_msg_channel''
             [(''numParticipants'', PNum 2), (''displayName'', PStr ''Town Square'')])
          [\<lparr>button_text = FormatMessage ''mobile.post.cancel'' [], onPress = None\<rparr>,
           \<lparr>button_text = FormatMessage ''mobile.calls_end_call_title'' [],
            onPress = Some (OnPressEndCall ''s1'' ''ch1'')\<rparr>]]"
    by (simp add: endCallAlert_def Let_def emit_def example_defs world_calls_def
          stored_call_def user_creator_def channel_town_def)
  have off1: "offered ?w1 (OnPressEndCall ''s1'' ''ch1'')"
    unfolding offered_def tr1 by (simp add: offers_def)
  have "run world_calls ?w1"
    by (rule run_step [OF run_start]) simp
  then have r2: "run world_calls ?w2"
    by (rule run_step) (use off1 in simp)
  have start: "Request ''s1'' (EndCall ''ch1'') \<notin> set (trace world_calls)"
    by (simp add: world_calls_def world_fresh_def)
  have "trace ?w2 = trace ?w1 @ [Request ''s1'' (EndCall ''ch1'')]"
    by (simp add: endCall_def Let_def request_def emit_def env_of_def client_up_def)
  then have made: "Request ''s1'' (EndCall ''ch1'') \<in> set (trace ?w2)"
    by simp
  have off2: "offered ?w2 (OnPressEndCall ''s1'' ''ch1'')"
    using T [THEN conjunct2, THEN conjunct2, THEN conjunct2, THEN conjunct2, THEN conjunct2,
               THEN conjunct2] r2 start made
    by blast
  show ?thesis
    using prem denied dialog pressed creator nodb silent r2 start made off2 by blast
qed

text \<open>
  C8 as the specification words it fails on this run: the current user is neither a system admin
  nor the creator of the call of channel \<open>ch9\<close>, the database does not have that
  channel, and \<open>endCallAlert\<close> shows no alert.
\<close>

theorem endCallAlert_silent_without_channel:
  "serverDatabases (env_of client_up user_member) ''s1'' = Some (db_of user_member)
   \<and> getCurrentUser (db_of user_member) = Some user_member
   \<and> map_of (calls world_calls ''s1'') ''ch9'' = Some (stored_call ''ch9'')
   \<and> \<not> isSystemAdmin (env_of client_up user_member) (roles user_member)
   \<and> id_user user_member \<noteq> creatorId (stored_call ''ch9'')
   \<and> getChannelById (db_of user_member) ''ch9'' = None
   \<and> endCallAlert (env_of client_up user_member) ''s1'' ''ch9'' world_calls = world_calls
   \<and> trace world_calls = []"
  by (simp add: endCallAlert_def example_defs world_calls_def stored_call_def user_member_def)

end
